theory Spec2Isabelle
  imports Main
begin

section \<open>Data model: the three tables of the admin database\<close>

text \<open>
  The admin service keeps its state in three SQLite tables (\<open>admins\<close>,
  \<open>refresh_tokens\<close>, \<open>admin_audit_log\<close>). A table is modelled as the list of its
  rows in insertion order; a row is a record with the columns the code reads or writes
  (the autoincrement ids and \<open>created_at\<close> defaults of the token and audit tables are
  never read by the operations below and are left out). Instants are milliseconds since
  the epoch; a nullable column is an \<open>option\<close>.
\<close>

type_synonym timestamp = nat

record admin =
  admin_id :: nat
  username :: string
  password :: string
  role :: string
  email :: "string option"
  created_at :: timestamp
  last_login :: "timestamp option"
  login_attempts :: nat
  locked_until :: "timestamp option"
  is_active :: bool

record refresh_token =
  rt_admin_id :: nat
  token_hash :: string
  expires_at :: timestamp
  revoked :: bool

record audit_entry =
  al_admin_id :: "nat option"
  al_action :: string
  al_ip_address :: "string option"
  al_user_agent :: "string option"
  al_success :: bool
  al_details :: "string option"

record db =
  admins :: "admin list"
  refresh_tokens :: "refresh_token list"
  admin_audit_log :: "audit_entry list"

text \<open>Security constants of the admin service.\<close>

definition MAX_LOGIN_ATTEMPTS :: nat where
  "MAX_LOGIN_ATTEMPTS = 5"

definition LOCKOUT_DURATION :: nat where
  "LOCKOUT_DURATION = 15 * 60 * 1000"

section \<open>Strings\<close>

text \<open>
  A JavaScript string is a sequence of UTF-16 code units. The model has the strings whose
  code units are below 256 (the Latin-1 range, the range of the type \<open>char\<close>), a
  character being its code unit. On that range \<open>toLowerCase\<close> maps the capitals A to Z
  and the capitals U+00C0 to U+00DE, the multiplication sign U+00D7 apart, to the letter
  32 places further on and keeps every other character; \<open>trim\<close> removes the white
  space and line terminator characters of the language from both ends: U+0009 to
  U+000D, the space U+0020 and the no-break space U+00A0.
\<close>

definition upper_letters :: string where
  "upper_letters =
     ''ABCDEFGHIJKLMNOPQRSTUVWXYZ'' @
     [CHR 0xC0, CHR 0xC1, CHR 0xC2, CHR 0xC3, CHR 0xC4, CHR 0xC5, CHR 0xC6, CHR 0xC7,
      CHR 0xC8, CHR 0xC9, CHR 0xCA, CHR 0xCB, CHR 0xCC, CHR 0xCD, CHR 0xCE, CHR 0xCF,
      CHR 0xD0, CHR 0xD1, CHR 0xD2, CHR 0xD3, CHR 0xD4, CHR 0xD5, CHR 0xD6, CHR 0xD8,
      CHR 0xD9, CHR 0xDA, CHR 0xDB, CHR 0xDC, CHR 0xDD, CHR 0xDE]"

definition lower_letters :: string where
  "lower_letters =
     ''abcdefghijklmnopqrstuvwxyz'' @
     [CHR 0xE0, CHR 0xE1, CHR 0xE2, CHR 0xE3, CHR 0xE4, CHR 0xE5, CHR 0xE6, CHR 0xE7,
      CHR 0xE8, CHR 0xE9, CHR 0xEA, CHR 0xEB, CHR 0xEC, CHR 0xED, CHR 0xEE, CHR 0xEF,
      CHR 0xF0, CHR 0xF1, CHR 0xF2, CHR 0xF3, CHR 0xF4, CHR 0xF5, CHR 0xF6, CHR 0xF8,
      CHR 0xF9, CHR 0xFA, CHR 0xFB, CHR 0xFC, CHR 0xFD, CHR 0xFE]"

definition lower_char :: "char \<Rightarrow> char" where
  "lower_char c =
     (case map_of (zip upper_letters lower_letters) c of
        Some l \<Rightarrow> l
      | None \<Rightarrow> c)"

definition toLowerCase :: "string \<Rightarrow> string" where
  "toLowerCase s = map lower_char s"

definition is_space :: "char \<Rightarrow> bool" where
  "is_space c =
     (c \<in> set [CHR 0x09, CHR 0x0A, CHR 0x0B, CHR 0x0C, CHR 0x0D, CHR 0x20, CHR 0xA0])"

definition trim :: "string \<Rightarrow> string" where
  "trim s = rev (dropWhile is_space (rev (dropWhile is_space s)))"

text \<open>The decimal rendering of a number inside a template string.\<close>

fun string_of_nat :: "nat \<Rightarrow> string" where
  "string_of_nat n =
     (if n < 10 then [''0123456789'' ! n]
      else string_of_nat (n div 10) @ [''0123456789'' ! (n mod 10)])"

text \<open>
  The sanitizer \<open>escape()\<close> of the request validators replaces the HTML-significant
  characters by entities.
\<close>

definition escape_char :: "char \<Rightarrow> string" where
  "escape_char c =
     (if c = CHR ''&'' then ''&amp;''
      else if c = CHR 0x22 then ''&quot;''
      else if c = CHR 0x27 then ''&#x27;''
      else if c = CHR ''<'' then ''&lt;''
      else if c = CHR ''>'' then ''&gt;''
      else if c = CHR ''/'' then ''&#x2F;''
      else if c = CHR 0x5C then ''&#x5C;''
      else if c = CHR 0x60 then ''&#96;''
      else [c])"

definition escape :: "string \<Rightarrow> string" where
  "escape s = concat (map escape_char s)"

section \<open>Errors thrown by the admin service\<close>

text \<open>
  Every \<open>throw new Error(...)\<close> of the service is a constructor; \<open>message\<close> gives
  the text the error carries, which is what the routes send to the caller.
\<close>

datatype auth_error =
    InvalidCredentials
  | AccountLockedTryAgain nat
  | AccountDisabled
  | TooManyFailedAttempts
  | NewPasswordTooShort
  | AdminNotFound
  | InvalidOldPassword

fun message :: "auth_error \<Rightarrow> string" where
  "message InvalidCredentials = ''Invalid credentials''"
| "message (AccountLockedTryAgain minutesLeft) =
     ''Account locked. Try again in '' @ string_of_nat minutesLeft @ '' minutes.''"
| "message AccountDisabled = ''Account is disabled''"
| "message TooManyFailedAttempts = ''Too many failed attempts. Account locked for 15 minutes.''"
| "message NewPasswordTooShort = ''New password must be at least 8 characters''"
| "message AdminNotFound = ''Admin not found''"
| "message InvalidOldPassword = ''Invalid old password''"

section \<open>Store operations\<close>

definition find_admin_by_username :: "string \<Rightarrow> db \<Rightarrow> admin option" where
  "find_admin_by_username u d = find (\<lambda>a. username a = u) (admins d)"

definition find_admin_by_id :: "nat \<Rightarrow> db \<Rightarrow> admin option" where
  "find_admin_by_id i d = find (\<lambda>a. admin_id a = i) (admins d)"

text \<open>\<open>UPDATE admins SET ... WHERE id = ?\<close>: every row with that id is rewritten.\<close>

definition update_admin :: "nat \<Rightarrow> (admin \<Rightarrow> admin) \<Rightarrow> db \<Rightarrow> db" where
  "update_admin i f d = d\<lparr>admins := map (\<lambda>a. if admin_id a = i then f a else a) (admins d)\<rparr>"

definition logAudit ::
  "nat option \<Rightarrow> string \<Rightarrow> string option \<Rightarrow> string option \<Rightarrow> bool \<Rightarrow> string option \<Rightarrow> db \<Rightarrow> db" where
  "logAudit adminId act ipAddress userAgent ok det d =
     d\<lparr>admin_audit_log := admin_audit_log d @
        [\<lparr>al_admin_id = adminId, al_action = act, al_ip_address = ipAddress,
          al_user_agent = userAgent, al_success = ok, al_details = det\<rparr>]\<rparr>"

text \<open>\<open>storeRefreshToken\<close> inserts a row; the column \<open>revoked\<close> takes its default 0.\<close>

definition storeRefreshToken :: "nat \<Rightarrow> string \<Rightarrow> timestamp \<Rightarrow> db \<Rightarrow> db" where
  "storeRefreshToken adminId tokenHash expiresAt d =
     d\<lparr>refresh_tokens := refresh_tokens d @
        [\<lparr>rt_admin_id = adminId, token_hash = tokenHash, expires_at = expiresAt,
          revoked = False\<rparr>]\<rparr>"

text \<open>
  The texts of an instant. The login route stores the expiry of a refresh token as
  \<open>expiresAt.toISOString()\<close>, the text \<open>YYYY-MM-DDTHH:MM:SS.sssZ\<close> of the instant in
  UTC; the \<open>CURRENT_TIMESTAMP\<close> of the database engine is the text
  \<open>YYYY-MM-DD HH:MM:SS\<close> of the current instant in UTC. Both are given here for the
  instants from 1970 to the year 9999. The date of a day number (days since 1 January
  1970) is computed in the Gregorian calendar by eras of 400 years (146097 days) that
  begin on 1 March.
\<close>

definition digit :: "nat \<Rightarrow> char" where
  "digit n = ''0123456789'' ! (n mod 10)"

definition pad2 :: "nat \<Rightarrow> string" where
  "pad2 n = [digit (n div 10), digit n]"

definition pad3 :: "nat \<Rightarrow> string" where
  "pad3 n = [digit (n div 100), digit (n div 10), digit n]"

definition pad4 :: "nat \<Rightarrow> string" where
  "pad4 n = [digit (n div 1000), digit (n div 100), digit (n div 10), digit n]"

definition day_of_era :: "nat \<Rightarrow> nat" where
  "day_of_era days = (days + 719468) mod 146097"

definition year_of_era :: "nat \<Rightarrow> nat" where
  "year_of_era doe = (doe - doe div 1460 + doe div 36524 - doe div 146096) div 365"

definition day_of_year :: "nat \<Rightarrow> nat" where
  "day_of_year doe = doe - (365 * year_of_era doe + year_of_era doe div 4 - year_of_era doe div 100)"

definition month_index :: "nat \<Rightarrow> nat" where
  "month_index doy = (5 * doy + 2) div 153"

definition civil_day :: "nat \<Rightarrow> nat" where
  "civil_day days =
     day_of_year (day_of_era days)
       - (153 * month_index (day_of_year (day_of_era days)) + 2) div 5 + 1"

definition civil_month :: "nat \<Rightarrow> nat" where
  "civil_month days =
     (if month_index (day_of_year (day_of_era days)) < 10
      then month_index (day_of_year (day_of_era days)) + 3
      else month_index (day_of_year (day_of_era days)) - 9)"

definition civil_year :: "nat \<Rightarrow> nat" where
  "civil_year days =
     year_of_era (day_of_era days) + (days + 719468) div 146097 * 400
       + (if civil_month days \<le> 2 then 1 else 0)"

definition date_text :: "nat \<Rightarrow> string" where
  "date_text days =
     pad4 (civil_year days) @ ''-'' @ pad2 (civil_month days) @ ''-'' @ pad2 (civil_day days)"

definition time_text :: "timestamp \<Rightarrow> string" where
  "time_text t =
     pad2 (t div 3600000 mod 24) @ '':'' @ pad2 (t div 60000 mod 60) @ '':''
       @ pad2 (t div 1000 mod 60)"

definition toISOString :: "timestamp \<Rightarrow> string" where
  "toISOString t =
     date_text (t div 86400000) @ ''T'' @ time_text t @ ''.'' @ pad3 (t mod 1000) @ ''Z''"

definition CURRENT_TIMESTAMP :: "timestamp \<Rightarrow> string" where
  "CURRENT_TIMESTAMP t = date_text (t div 86400000) @ '' '' @ time_text t"

text \<open>
  The column \<open>expires_at\<close> holds that ISO text, which is no number, so the engine
  compares it with \<open>CURRENT_TIMESTAMP\<close> as text: byte by byte, the first difference
  decides, and a proper prefix is the smaller text.
\<close>

fun text_gt :: "string \<Rightarrow> string \<Rightarrow> bool" where
  "text_gt [] ys = False"
| "text_gt (x # xs) [] = True"
| "text_gt (x # xs) (y # ys) =
     (if x = y then text_gt xs ys else (of_char y :: nat) < of_char x)"

definition expires_gt_CURRENT_TIMESTAMP :: "timestamp \<Rightarrow> timestamp \<Rightarrow> bool" where
  "expires_gt_CURRENT_TIMESTAMP expiresAt now =
     text_gt (toISOString expiresAt) (CURRENT_TIMESTAMP now)"

text \<open>
  The lookup of a refresh token selects the first row with the given hash that is not
  revoked and whose \<open>expires_at\<close> the database engine finds greater than its
  \<open>CURRENT_TIMESTAMP\<close>. The row keeps the instant of expiry; the test of the engine
  is the parameter \<open>sql_gt\<close> (stored expiry, current instant) of the lookup and of the
  refresh route, and \<open>expires_gt_CURRENT_TIMESTAMP\<close> is the test the engine makes on
  the texts.
\<close>

definition adminService_verifyRefreshToken ::
  "(timestamp \<Rightarrow> timestamp \<Rightarrow> bool) \<Rightarrow> timestamp \<Rightarrow> string \<Rightarrow> db \<Rightarrow> refresh_token option" where
  "adminService_verifyRefreshToken sql_gt now tokenHash d =
     find (\<lambda>r. token_hash r = tokenHash \<and> \<not> revoked r \<and> sql_gt (expires_at r) now)
       (refresh_tokens d)"

text \<open>
  \<open>UPDATE refresh_tokens SET revoked = 1 WHERE token_hash = ?\<close> and
  \<open>UPDATE refresh_tokens SET revoked = 1 WHERE admin_id = ?\<close>.
\<close>

definition revokeRefreshToken :: "string \<Rightarrow> db \<Rightarrow> db" where
  "revokeRefreshToken tokenHash d =
     d\<lparr>refresh_tokens :=
        map (\<lambda>r. if token_hash r = tokenHash then r\<lparr>revoked := True\<rparr> else r)
          (refresh_tokens d)\<rparr>"

definition revokeAllRefreshTokens :: "nat \<Rightarrow> db \<Rightarrow> db" where
  "revokeAllRefreshTokens adminId d =
     d\<lparr>refresh_tokens :=
        map (\<lambda>r. if rt_admin_id r = adminId then r\<lparr>revoked := True\<rparr> else r)
          (refresh_tokens d)\<rparr>"

text \<open>
  \<open>getAdminById\<close> selects the columns without the password and the lockout state.
\<close>

record admin_view =
  av_id :: nat
  av_username :: string
  av_email :: "string option"
  av_role :: string
  av_created_at :: timestamp
  av_last_login :: "timestamp option"
  av_is_active :: bool

definition getAdminById :: "nat \<Rightarrow> db \<Rightarrow> admin_view option" where
  "getAdminById i d =
     map_option (\<lambda>a. \<lparr>av_id = admin_id a, av_username = username a, av_email = email a,
                      av_role = role a, av_created_at = created_at a,
                      av_last_login = last_login a, av_is_active = is_active a\<rparr>)
       (find_admin_by_id i d)"

definition deactivateAdmin :: "nat \<Rightarrow> db \<Rightarrow> db" where
  "deactivateAdmin i d = revokeAllRefreshTokens i (update_admin i (\<lambda>a. a\<lparr>is_active := False\<rparr>) d)"

definition activateAdmin :: "nat \<Rightarrow> db \<Rightarrow> db" where
  "activateAdmin i d = update_admin i (\<lambda>a. a\<lparr>is_active := True\<rparr>) d"

section \<open>Authentication\<close>

text \<open>
  The value \<open>authenticate\<close> returns: the row as it was read, without the password
  (\<open>const { password: _, ...safeAdmin } = admin\<close>).
\<close>

record safe_admin =
  sa_id :: nat
  sa_username :: string
  sa_role :: string
  sa_email :: "string option"
  sa_created_at :: timestamp
  sa_last_login :: "timestamp option"
  sa_login_attempts :: nat
  sa_locked_until :: "timestamp option"
  sa_is_active :: bool

definition strip_password :: "admin \<Rightarrow> safe_admin" where
  "strip_password a =
     \<lparr>sa_id = admin_id a, sa_username = username a, sa_role = role a, sa_email = email a,
      sa_created_at = created_at a, sa_last_login = last_login a,
      sa_login_attempts = login_attempts a, sa_locked_until = locked_until a,
      sa_is_active = is_active a\<rparr>"

text \<open>\<open>Math.ceil((lockUntil - now) / 60000)\<close>, for \<open>lockUntil > now\<close>.\<close>

definition minutesLeft :: "timestamp \<Rightarrow> timestamp \<Rightarrow> nat" where
  "minutesLeft lockUntil now = (lockUntil - now + 59999) div 60000"

text \<open>
  \<open>authenticate\<close> reads the admin row once, into the local \<open>admin\<close>, and every later
  test is made on that value; the updates go to the database. The function is split
  where the lock check ends: \<open>authenticate_checks\<close> is the rest of its body (the
  activity check, the password comparison and the two outcomes), run on the row
  \<open>adm\<close> as it was read and on the database as the lock check left it. The password
  comparison of the hashing library is the parameter \<open>compare\<close> (password, stored hash).
  The delay on the unknown-user path has no effect on the result and is not modelled.
\<close>

definition authenticate_checks ::
  "(string \<Rightarrow> string \<Rightarrow> bool) \<Rightarrow> timestamp \<Rightarrow> admin \<Rightarrow> string \<Rightarrow> string option \<Rightarrow> string option
     \<Rightarrow> db \<Rightarrow> (auth_error + safe_admin) \<times> db" where
  "authenticate_checks compare now adm pw ipAddress userAgent d =
     (if \<not> is_active adm then
        (Inl AccountDisabled,
         logAudit (Some (admin_id adm)) ''login_failed'' ipAddress userAgent False
           (Some ''Account disabled'') d)
      else if \<not> compare pw (password adm) then
        (let newAttempts = login_attempts adm + 1;
             shouldLock = (newAttempts \<ge> MAX_LOGIN_ATTEMPTS);
             d1 = update_admin (admin_id adm)
                    (\<lambda>a. a\<lparr>login_attempts := newAttempts,
                            locked_until := (if shouldLock then Some (now + LOCKOUT_DURATION)
                                             else None)\<rparr>) d;
             d2 = logAudit (Some (admin_id adm)) ''login_failed'' ipAddress userAgent False
                    (Some (''Invalid password (attempt '' @ string_of_nat newAttempts @ ''/''
                           @ string_of_nat MAX_LOGIN_ATTEMPTS @ '')'')) d1
         in (Inl (if shouldLock then TooManyFailedAttempts else InvalidCredentials), d2))
      else
        (let d1 = update_admin (admin_id adm)
                    (\<lambda>a. a\<lparr>login_attempts := 0, locked_until := None,
                            last_login := Some now\<rparr>) d;
             d2 = logAudit (Some (admin_id adm)) ''login_success'' ipAddress userAgent True
                    None d1
         in (Inr (strip_password adm), d2)))"

definition authenticate ::
  "(string \<Rightarrow> string \<Rightarrow> bool) \<Rightarrow> timestamp \<Rightarrow> string \<Rightarrow> string \<Rightarrow> string option \<Rightarrow> string option
     \<Rightarrow> db \<Rightarrow> (auth_error + safe_admin) \<times> db" where
  "authenticate compare now uname pw ipAddress userAgent d =
     (case find_admin_by_username (trim (toLowerCase uname)) d of
        None \<Rightarrow>
          (Inl InvalidCredentials,
           logAudit None ''login_failed'' ipAddress userAgent False (Some ''User not found'') d)
      | Some adm \<Rightarrow>
          (case locked_until adm of
             None \<Rightarrow> authenticate_checks compare now adm pw ipAddress userAgent d
           | Some lockUntil \<Rightarrow>
               if lockUntil > now then
                 (Inl (AccountLockedTryAgain (minutesLeft lockUntil now)),
                  logAudit (Some (admin_id adm)) ''login_failed'' ipAddress userAgent False
                    (Some ''Account locked'') d)
               else
                 authenticate_checks compare now adm pw ipAddress userAgent
                   (update_admin (admin_id adm)
                      (\<lambda>a. a\<lparr>login_attempts := 0, locked_until := None\<rparr>) d)))"

text \<open>
  \<open>changePassword\<close>; \<open>hash\<close> is the hashing of the new password by the library.
\<close>

definition changePassword ::
  "(string \<Rightarrow> string \<Rightarrow> bool) \<Rightarrow> (string \<Rightarrow> string) \<Rightarrow> nat \<Rightarrow> string \<Rightarrow> string \<Rightarrow> db
     \<Rightarrow> (auth_error + bool) \<times> db" where
  "changePassword compare hash adminId oldPassword newPassword d =
     (if length newPassword < 8 then (Inl NewPasswordTooShort, d)
      else case find_admin_by_id adminId d of
        None \<Rightarrow> (Inl AdminNotFound, d)
      | Some adm \<Rightarrow>
          if \<not> compare oldPassword (password adm) then
            (Inl InvalidOldPassword,
             logAudit (Some adminId) ''password_change_failed'' None None False
               (Some ''Invalid old password'') d)
          else
            (let d1 = update_admin adminId (\<lambda>a. a\<lparr>password := hash newPassword\<rparr>) d;
                 d2 = revokeAllRefreshTokens adminId d1;
                 d3 = logAudit (Some adminId) ''password_changed'' None None True None d2
             in (Inr True, d3)))"

section \<open>Tokens and routes\<close>

text \<open>
  The claims of a token. Signing and verification are done by the token library with
  the server secret: \<open>jwt_sign\<close> (payload, lifetime option) and \<open>jwt_verify\<close>
  (\<open>None\<close> when the library throws: bad signature, expired, malformed) are parameters.
\<close>

record jwt_payload =
  jwt_id :: nat
  jwt_username :: "string option"
  jwt_role :: "string option"
  jwt_type :: "string option"

definition JWT_EXPIRES_IN :: string where
  "JWT_EXPIRES_IN = ''24h''"

definition JWT_REFRESH_EXPIRES_IN :: string where
  "JWT_REFRESH_EXPIRES_IN = ''7d''"

definition generateAccessToken ::
  "(jwt_payload \<Rightarrow> string \<Rightarrow> string) \<Rightarrow> nat \<Rightarrow> string \<Rightarrow> string \<Rightarrow> string" where
  "generateAccessToken jwt_sign uid uname urole =
     jwt_sign \<lparr>jwt_id = uid, jwt_username = Some uname, jwt_role = Some urole,
               jwt_type = None\<rparr> JWT_EXPIRES_IN"

definition generateRefreshToken :: "(jwt_payload \<Rightarrow> string \<Rightarrow> string) \<Rightarrow> nat \<Rightarrow> string" where
  "generateRefreshToken jwt_sign uid =
     jwt_sign \<lparr>jwt_id = uid, jwt_username = None, jwt_role = None,
               jwt_type = Some ''refresh''\<rparr> JWT_REFRESH_EXPIRES_IN"

datatype token_error = VerifyFailed | InvalidTokenType

text \<open>
  \<open>verifyRefreshToken\<close> of the middleware rethrows every failure: it never returns a
  falsy value.
\<close>

definition verifyRefreshToken ::
  "(string \<Rightarrow> jwt_payload option) \<Rightarrow> string \<Rightarrow> token_error + jwt_payload" where
  "verifyRefreshToken jwt_verify token =
     (case jwt_verify token of
        None \<Rightarrow> Inl VerifyFailed
      | Some decoded \<Rightarrow>
          if jwt_type decoded \<noteq> Some ''refresh'' then Inl InvalidTokenType else Inr decoded)"

text \<open>
  What a route sends: the status, the fields of the JSON body and the cookies it sets.
\<close>

record response =
  status :: nat
  res_success :: bool
  res_error :: "string option"
  res_code :: "string option"
  res_message :: "string option"
  res_details :: "string list"
  res_user :: "safe_admin option"
  res_accessToken :: "string option"
  res_refreshToken :: "string option"
  res_expiresIn :: "nat option"
  res_cookies :: "(string \<times> string) list"
  res_cleared :: "string list"

definition json :: "nat \<Rightarrow> bool \<Rightarrow> response" where
  "json st ok =
     \<lparr>status = st, res_success = ok, res_error = None, res_code = None, res_message = None,
      res_details = [], res_user = None, res_accessToken = None, res_refreshToken = None,
      res_expiresIn = None, res_cookies = [], res_cleared = []\<rparr>"

text \<open>A failure body: \<open>{ success: false, error, code }\<close>, the code where the route gives one.\<close>

definition failure :: "nat \<Rightarrow> string \<Rightarrow> string option \<Rightarrow> response" where
  "failure st err c = (json st False)\<lparr>res_error := Some err, res_code := c\<rparr>"

text \<open>\<open>a || b\<close> on optional strings: the empty string is falsy.\<close>

definition truthy :: "string option \<Rightarrow> bool" where
  "truthy a = (case a of None \<Rightarrow> False | Some s \<Rightarrow> s \<noteq> [])"

definition or_else :: "string option \<Rightarrow> string option \<Rightarrow> string option" where
  "or_else a b = (if truthy a then a else b)"

text \<open>
  \<open>POST /login\<close>, after the rate limiter: validation of the body, authentication,
  issue of the two tokens. An error of \<open>authenticate\<close> reaches the caller as status 401
  with the error's message.
\<close>

definition login_route ::
  "(string \<Rightarrow> string \<Rightarrow> bool) \<Rightarrow> (jwt_payload \<Rightarrow> string \<Rightarrow> string) \<Rightarrow> (string \<Rightarrow> string)
     \<Rightarrow> timestamp \<Rightarrow> string option \<Rightarrow> string option \<Rightarrow> string \<Rightarrow> string \<Rightarrow> db
     \<Rightarrow> response \<times> db" where
  "login_route compare jwt_sign sha256 now ipAddress userAgent uname pw d =
     (let errors =
            (if length (trim uname) < 3 then [''Username must be at least 3 characters'']
             else []) @
            (if length pw < 8 then [''Password must be at least 8 characters''] else [])
      in if errors \<noteq> [] then
           ((failure 400 ''Validation failed'' None)\<lparr>res_details := errors\<rparr>, d)
         else
           (case authenticate compare now (escape (trim uname)) pw ipAddress userAgent d of
              (Inl e, d1) \<Rightarrow>
                ((json 401 False)
                   \<lparr>res_error := or_else (Some (message e)) (Some ''Invalid credentials'')\<rparr>, d1)
            | (Inr adm, d1) \<Rightarrow>
                (let accessToken =
                       generateAccessToken jwt_sign (sa_id adm) (sa_username adm) (sa_role adm);
                     refreshToken = generateRefreshToken jwt_sign (sa_id adm);
                     refreshTokenHash = sha256 refreshToken;
                     expiresAt = now + 7 * 24 * 60 * 60 * 1000;
                     d2 = storeRefreshToken (sa_id adm) refreshTokenHash expiresAt d1
                 in ((json 200 True)
                       \<lparr>res_message := Some ''Login successful'', res_user := Some adm,
                        res_accessToken := Some accessToken,
                        res_refreshToken := Some refreshToken, res_expiresIn := Some 86400,
                        res_cookies := [(''auth_token'', accessToken),
                                        (''refresh_token'', refreshToken)]\<rparr>, d2))))"

text \<open>
  \<open>POST /refresh\<close>. The token comes from the cookie or the body. A failure of
  \<open>verifyRefreshToken\<close> is an exception, caught by the route's handler for errors (the
  test \<open>if (!decoded)\<close> is never taken). The route writes nothing to the database
  and sets no cookie but \<open>auth_token\<close>.
\<close>

definition refresh_route ::
  "(string \<Rightarrow> jwt_payload option) \<Rightarrow> (jwt_payload \<Rightarrow> string \<Rightarrow> string) \<Rightarrow> (string \<Rightarrow> string)
     \<Rightarrow> (timestamp \<Rightarrow> timestamp \<Rightarrow> bool) \<Rightarrow> timestamp \<Rightarrow> string option \<Rightarrow> string option \<Rightarrow> db
     \<Rightarrow> response \<times> db" where
  "refresh_route jwt_verify jwt_sign sha256 sql_gt now cookie body d =
     (case or_else cookie body of
        None \<Rightarrow> (failure 401 ''Refresh token required'' (Some ''NO_REFRESH_TOKEN''), d)
      | Some refreshToken \<Rightarrow>
          if refreshToken = [] then
            (failure 401 ''Refresh token required'' (Some ''NO_REFRESH_TOKEN''), d)
          else
            (case verifyRefreshToken jwt_verify refreshToken of
               Inl err \<Rightarrow> (failure 500 ''Failed to refresh token'' None, d)
             | Inr decoded \<Rightarrow>
                 (case adminService_verifyRefreshToken sql_gt now (sha256 refreshToken) d of
                    None \<Rightarrow>
                      (failure 403 ''Refresh token expired or revoked'' (Some ''TOKEN_REVOKED''), d)
                  | Some storedToken \<Rightarrow>
                      (case getAdminById (jwt_id decoded) d of
                         None \<Rightarrow>
                           (failure 403 ''Account not found or disabled''
                              (Some ''ACCOUNT_DISABLED''), d)
                       | Some adm \<Rightarrow>
                           if \<not> av_is_active adm then
                             (failure 403 ''Account not found or disabled''
                                (Some ''ACCOUNT_DISABLED''), d)
                           else
                             (let newAccessToken =
                                    generateAccessToken jwt_sign (av_id adm) (av_username adm)
                                      (av_role adm)
                              in ((json 200 True)
                                    \<lparr>res_message := Some ''Token refreshed successfully'',
                                     res_accessToken := Some newAccessToken,
                                     res_expiresIn := Some 86400,
                                     res_cookies := [(''auth_token'', newAccessToken)]\<rparr>,
                                  d))))))"

text \<open>
  \<open>POST /change-password\<close>, for the authenticated admin \<open>adminId\<close>. The validators
  require a non-empty old password and a new password of at least 8 characters with a
  small letter, a capital and a digit on its first line. An error of \<open>changePassword\<close>
  reaches the caller as status 400 with the error's message.
\<close>

definition first_line :: "string \<Rightarrow> string" where
  "first_line s = takeWhile (\<lambda>c. c \<noteq> CHR 0x0A \<and> c \<noteq> CHR 0x0D) s"

definition has_lower_upper_digit :: "string \<Rightarrow> bool" where
  "has_lower_upper_digit s =
     (list_ex (\<lambda>c. c \<in> set ''abcdefghijklmnopqrstuvwxyz'') (first_line s) \<and>
      list_ex (\<lambda>c. c \<in> set ''ABCDEFGHIJKLMNOPQRSTUVWXYZ'') (first_line s) \<and>
      list_ex (\<lambda>c. c \<in> set ''0123456789'') (first_line s))"

definition change_password_route ::
  "(string \<Rightarrow> string \<Rightarrow> bool) \<Rightarrow> (string \<Rightarrow> string) \<Rightarrow> nat \<Rightarrow> string \<Rightarrow> string \<Rightarrow> db
     \<Rightarrow> response \<times> db" where
  "change_password_route compare hash adminId oldPassword newPassword d =
     (let errors =
            (if oldPassword = [] then [''Old password is required''] else []) @
            (if length newPassword < 8 then [''New password must be at least 8 characters'']
             else []) @
            (if \<not> has_lower_upper_digit newPassword
             then [''Password must contain uppercase, lowercase, and number''] else [])
      in if errors \<noteq> [] then
           ((failure 400 ''Validation failed'' None)\<lparr>res_details := errors\<rparr>, d)
         else
           (case changePassword compare hash adminId oldPassword newPassword d of
              (Inl e, d1) \<Rightarrow>
                ((json 400 False)
                   \<lparr>res_error := or_else (Some (message e)) (Some ''Failed to change password'')\<rparr>,
                 d1)
            | (Inr ok, d1) \<Rightarrow>
                ((json 200 True)
                   \<lparr>res_message := Some ''Password changed successfully. Please login again.'',
                    res_cleared := [''auth_token'', ''refresh_token'']\<rparr>,
                 d1)))"

section \<open>Example state\<close>

text \<open>
  A small database and stand-ins for the library functions, on which the theorems below
  are instantiated: the seeded admin \<open>admin\<close>/\<open>admin123\<close>, a second admin, and one
  refresh token for each.
\<close>

definition ex_compare :: "string \<Rightarrow> string \<Rightarrow> bool" where
  "ex_compare pw h = (h = ''hash:'' @ pw)"

definition ex_hash :: "string \<Rightarrow> string" where
  "ex_hash pw = ''hash:'' @ pw"

definition ex_sha256 :: "string \<Rightarrow> string" where
  "ex_sha256 t = ''sha256:'' @ t"

definition ex_jwt_sign :: "jwt_payload \<Rightarrow> string \<Rightarrow> string" where
  "ex_jwt_sign p lifetime =
     (case jwt_type p of Some t \<Rightarrow> t | None \<Rightarrow> ''access'') @ '':'' @ string_of_nat (jwt_id p)
       @ '':'' @ lifetime"

definition ex_jwt_verify :: "string \<Rightarrow> jwt_payload option" where
  "ex_jwt_verify t =
     (if t = ''refresh:1:7d'' then
        Some \<lparr>jwt_id = 1, jwt_username = None, jwt_role = None, jwt_type = Some ''refresh''\<rparr>
      else if t = ''refresh:2:7d'' then
        Some \<lparr>jwt_id = 2, jwt_username = None, jwt_role = None, jwt_type = Some ''refresh''\<rparr>
      else if t = ''access:1:24h'' then
        Some \<lparr>jwt_id = 1, jwt_username = Some ''admin'', jwt_role = Some ''admin'',
              jwt_type = None\<rparr>
      else None)"

definition ex_admin :: admin where
  "ex_admin =
     \<lparr>admin_id = 1, username = ''admin'', password = ''hash:admin123'', role = ''admin'',
      email = None, created_at = 0, last_login = None, login_attempts = 0,
      locked_until = None, is_active = True\<rparr>"

definition ex_operator :: admin where
  "ex_operator =
     \<lparr>admin_id = 2, username = ''operator'', password = ''hash:Operator42'', role = ''admin'',
      email = None, created_at = 10, last_login = None, login_attempts = 0,
      locked_until = None, is_active = True\<rparr>"

definition ex_tokens :: "refresh_token list" where
  "ex_tokens =
     [\<lparr>rt_admin_id = 1, token_hash = ''sha256:refresh:1:7d'', expires_at = 604800000,
       revoked = False\<rparr>,
      \<lparr>rt_admin_id = 2, token_hash = ''sha256:refresh:2:7d'', expires_at = 604800000,
       revoked = False\<rparr>]"

definition ex_db :: db where
  "ex_db = \<lparr>admins = [ex_admin, ex_operator], refresh_tokens = ex_tokens,
            admin_audit_log = []\<rparr>"

section \<open>Basic facts about the store operations\<close>

lemma find_map_keep:
  assumes "\<And>a. P (f a) = P a"
  shows "find P (map f xs) = map_option f (find P xs)"
  using assms by (induction xs) auto

lemma update_admin_sel [simp]:
  "admins (update_admin i f d) = map (\<lambda>a. if admin_id a = i then f a else a) (admins d)"
  "refresh_tokens (update_admin i f d) = refresh_tokens d"
  "admin_audit_log (update_admin i f d) = admin_audit_log d"
  by (simp_all add: update_admin_def)

lemma logAudit_sel [simp]:
  "admins (logAudit i a ip ua ok det d) = admins d"
  "refresh_tokens (logAudit i a ip ua ok det d) = refresh_tokens d"
  "admin_audit_log (logAudit i a ip ua ok det d) = admin_audit_log d @
        [\<lparr>al_admin_id = i, al_action = a, al_ip_address = ip,
          al_user_agent = ua, al_success = ok, al_details = det\<rparr>]"
  by (simp_all add: logAudit_def)

lemma revokeAllRefreshTokens_sel [simp]:
  "admins (revokeAllRefreshTokens i d) = admins d"
  "admin_audit_log (revokeAllRefreshTokens i d) = admin_audit_log d"
  "refresh_tokens (revokeAllRefreshTokens i d) =
     map (\<lambda>r. if rt_admin_id r = i then r\<lparr>revoked := True\<rparr> else r) (refresh_tokens d)"
  by (simp_all add: revokeAllRefreshTokens_def)

lemma revokeRefreshToken_sel [simp]:
  "admins (revokeRefreshToken h d) = admins d"
  "admin_audit_log (revokeRefreshToken h d) = admin_audit_log d"
  "refresh_tokens (revokeRefreshToken h d) =
     map (\<lambda>r. if token_hash r = h then r\<lparr>revoked := True\<rparr> else r) (refresh_tokens d)"
  by (simp_all add: revokeRefreshToken_def)

lemmas ex_defs = ex_compare_def ex_hash_def ex_sha256_def ex_jwt_sign_def ex_jwt_verify_def
  ex_admin_def ex_operator_def ex_tokens_def ex_db_def

lemmas string_defs = toLowerCase_def lower_char_def upper_letters_def lower_letters_def trim_def
  is_space_def escape_def escape_char_def

lemmas text_defs = expires_gt_CURRENT_TIMESTAMP_def toISOString_def CURRENT_TIMESTAMP_def
  date_text_def time_text_def day_of_era_def year_of_era_def day_of_year_def month_index_def
  civil_day_def civil_month_def civil_year_def pad2_def pad3_def pad4_def digit_def

lemma find_username_update_admin:
  assumes "\<And>a. username (f a) = username a"
  shows "find_admin_by_username u (update_admin i f d) =
         map_option (\<lambda>a. if admin_id a = i then f a else a) (find_admin_by_username u d)"
  unfolding find_admin_by_username_def update_admin_sel
  by (rule find_map_keep) (simp add: assms)

lemma find_id_update_admin:
  assumes "\<And>a. admin_id (f a) = admin_id a"
  shows "find_admin_by_id j (update_admin i f d) =
         map_option (\<lambda>a. if admin_id a = i then f a else a) (find_admin_by_id j d)"
  unfolding find_admin_by_id_def update_admin_sel
  by (rule find_map_keep) (simp add: assms)

lemma find_username_logAudit [simp]:
  "find_admin_by_username u (logAudit i a ip ua ok det d) = find_admin_by_username u d"
  by (simp add: find_admin_by_username_def)

section \<open>Revocation of refresh tokens\<close>

text \<open>
  Claim C8. \<open>revokeRefreshToken\<close> and \<open>revokeAllRefreshTokens\<close> are idempotent:
  applied twice they leave the database as applied once. Each keeps the admins and the
  audit log, keeps the number and order of the token rows, and changes a row only by
  setting \<open>revoked\<close>, exactly when the row has the given token hash (respectively the
  given admin id); every other row is the row as it was.
\<close>

theorem revoke_idempotent_exact:
  "revokeRefreshToken h (revokeRefreshToken h d) = revokeRefreshToken h d
   \<and> revokeAllRefreshTokens i (revokeAllRefreshTokens i d) = revokeAllRefreshTokens i d
   \<and> admins (revokeRefreshToken h d) = admins d
   \<and> admin_audit_log (revokeRefreshToken h d) = admin_audit_log d
   \<and> admins (revokeAllRefreshTokens i d) = admins d
   \<and> admin_audit_log (revokeAllRefreshTokens i d) = admin_audit_log d
   \<and> length (refresh_tokens (revokeRefreshToken h d)) = length (refresh_tokens d)
   \<and> length (refresh_tokens (revokeAllRefreshTokens i d)) = length (refresh_tokens d)
   \<and> (\<forall>k < length (refresh_tokens d).
         refresh_tokens (revokeRefreshToken h d) ! k =
           (if token_hash (refresh_tokens d ! k) = h
            then (refresh_tokens d ! k)\<lparr>revoked := True\<rparr> else refresh_tokens d ! k)
       \<and> refresh_tokens (revokeAllRefreshTokens i d) ! k =
           (if rt_admin_id (refresh_tokens d ! k) = i
            then (refresh_tokens d ! k)\<lparr>revoked := True\<rparr> else refresh_tokens d ! k))"
proof -
  have "revokeRefreshToken h (revokeRefreshToken h d) = revokeRefreshToken h d"
    by (simp add: revokeRefreshToken_def comp_def)
  moreover have "revokeAllRefreshTokens i (revokeAllRefreshTokens i d) = revokeAllRefreshTokens i d"
    by (simp add: revokeAllRefreshTokens_def comp_def)
  ultimately show ?thesis by simp
qed

theorem revoke_idempotent_exact_witness:
  "(0::nat) < length (refresh_tokens ex_db) \<and> (1::nat) < length (refresh_tokens ex_db)
   \<and> refresh_tokens (revokeRefreshToken ''sha256:refresh:1:7d'' ex_db) ! 0 =
       \<lparr>rt_admin_id = 1, token_hash = ''sha256:refresh:1:7d'', expires_at = 604800000,
        revoked = True\<rparr>
   \<and> refresh_tokens (revokeRefreshToken ''sha256:refresh:1:7d'' ex_db) ! 1 = ex_tokens ! 1
   \<and> refresh_tokens (revokeAllRefreshTokens 2 ex_db) ! 0 = ex_tokens ! 0
   \<and> refresh_tokens (revokeAllRefreshTokens 2 ex_db) ! 1 =
       \<lparr>rt_admin_id = 2, token_hash = ''sha256:refresh:2:7d'', expires_at = 604800000,
        revoked = True\<rparr>
   \<and> revokeRefreshToken ''sha256:refresh:1:7d'' (revokeRefreshToken ''sha256:refresh:1:7d'' ex_db)
       = revokeRefreshToken ''sha256:refresh:1:7d'' ex_db
   \<and> revokeAllRefreshTokens 2 (revokeAllRefreshTokens 2 ex_db) = revokeAllRefreshTokens 2 ex_db"
proof -
  note t = revoke_idempotent_exact [of "''sha256:refresh:1:7d''" ex_db 2]
  have k0: "(0::nat) < length (refresh_tokens ex_db)"
   and k1: "(1::nat) < length (refresh_tokens ex_db)"
    by (simp_all add: ex_db_def ex_tokens_def)
  have rows: "\<forall>k < length (refresh_tokens ex_db).
         refresh_tokens (revokeRefreshToken ''sha256:refresh:1:7d'' ex_db) ! k =
           (if token_hash (refresh_tokens ex_db ! k) = ''sha256:refresh:1:7d''
            then (refresh_tokens ex_db ! k)\<lparr>revoked := True\<rparr> else refresh_tokens ex_db ! k)
       \<and> refresh_tokens (revokeAllRefreshTokens 2 ex_db) ! k =
           (if rt_admin_id (refresh_tokens ex_db ! k) = 2
            then (refresh_tokens ex_db ! k)\<lparr>revoked := True\<rparr> else refresh_tokens ex_db ! k)"
    using t by (elim conjE)
  have r0: "refresh_tokens (revokeRefreshToken ''sha256:refresh:1:7d'' ex_db) ! 0 =
       \<lparr>rt_admin_id = 1, token_hash = ''sha256:refresh:1:7d'', expires_at = 604800000,
        revoked = True\<rparr>"
   and a0: "refresh_tokens (revokeAllRefreshTokens 2 ex_db) ! 0 = ex_tokens ! 0"
    using rows [rule_format, OF k0] by (simp_all add: ex_db_def ex_tokens_def)
  have r1: "refresh_tokens (revokeRefreshToken ''sha256:refresh:1:7d'' ex_db) ! 1 = ex_tokens ! 1"
   and a1: "refresh_tokens (revokeAllRefreshTokens 2 ex_db) ! 1 =
       \<lparr>rt_admin_id = 2, token_hash = ''sha256:refresh:2:7d'', expires_at = 604800000,
        revoked = True\<rparr>"
    using rows [rule_format, OF k1] by (simp_all add: ex_db_def ex_tokens_def)
  have i1: "revokeRefreshToken ''sha256:refresh:1:7d''
        (revokeRefreshToken ''sha256:refresh:1:7d'' ex_db)
       = revokeRefreshToken ''sha256:refresh:1:7d'' ex_db"
    and i2: "revokeAllRefreshTokens 2 (revokeAllRefreshTokens 2 ex_db) = revokeAllRefreshTokens 2 ex_db"
    using t [THEN conjunct1] t [THEN conjunct2, THEN conjunct1] by this+
  show ?thesis using k0 k1 r0 r1 a0 a1 i1 i2 by (intro conjI)
qed


section \<open>Successful authentication\<close>

text \<open>
  Claim C5. Whenever \<open>authenticate\<close> succeeds, whatever the attempt counter and the lock
  of the admin were: the value returned holds the nine columns of the admin row other
  than the password, each as it was read, and nothing else;
  in the database every row with that admin's id has \<open>login_attempts = 0\<close>, no
  \<open>locked_until\<close> and \<open>last_login\<close> set to the current instant, and no other row is
  changed.
\<close>

theorem authenticate_success_resets:
  assumes "authenticate compare now uname pw ip ua d = (Inr sa, d')"
  shows "\<exists>adm. find_admin_by_username (trim (toLowerCase uname)) d = Some adm
          \<and> sa = \<lparr>sa_id = admin_id adm, sa_username = username adm, sa_role = role adm,
                  sa_email = email adm, sa_created_at = created_at adm,
                  sa_last_login = last_login adm, sa_login_attempts = login_attempts adm,
                  sa_locked_until = locked_until adm, sa_is_active = is_active adm\<rparr>
          \<and> admins d' = map (\<lambda>a. if admin_id a = admin_id adm
                                  then a\<lparr>login_attempts := 0, locked_until := None,
                                         last_login := Some now\<rparr>
                                  else a) (admins d)
          \<and> find_admin_by_username (trim (toLowerCase uname)) d' =
              Some (adm\<lparr>login_attempts := 0, locked_until := None, last_login := Some now\<rparr>)"
proof -
  let ?u = "trim (toLowerCase uname)"
  from assms obtain adm where adm: "find_admin_by_username ?u d = Some adm"
    by (auto simp: authenticate_def split: option.splits)
  let ?upd = "\<lambda>a. a\<lparr>login_attempts := 0, locked_until := None, last_login := Some now\<rparr>"
  have res: "sa = strip_password adm \<and>
             admins d' = map (\<lambda>a. if admin_id a = admin_id adm then ?upd a else a) (admins d)"
    using assms adm
    by (auto simp: authenticate_def authenticate_checks_def Let_def comp_def
        split: option.splits if_splits intro!: map_cong)
  then have ret: "sa = \<lparr>sa_id = admin_id adm, sa_username = username adm, sa_role = role adm,
                    sa_email = email adm, sa_created_at = created_at adm,
                    sa_last_login = last_login adm, sa_login_attempts = login_attempts adm,
                    sa_locked_until = locked_until adm, sa_is_active = is_active adm\<rparr>"
    by (simp add: strip_password_def)
  have "find_admin_by_username ?u d' =
          map_option (\<lambda>a. if admin_id a = admin_id adm then ?upd a else a)
            (find_admin_by_username ?u d)"
    unfolding find_admin_by_username_def using res
    by (simp add: find_map_keep)
  with adm res ret show ?thesis by simp
qed

text \<open>
  The theorem at work: the admin has three failed attempts and a lock that ended at
  instant 500; a login with the right password at instant 1000 succeeds.
\<close>

theorem authenticate_success_resets_witness:
  "authenticate ex_compare 1000 '' Admin '' ''admin123'' None None
     (ex_db\<lparr>admins := [ex_admin\<lparr>login_attempts := 3, locked_until := Some 500\<rparr>, ex_operator]\<rparr>)
   = (Inr \<lparr>sa_id = 1, sa_username = ''admin'', sa_role = ''admin'', sa_email = None,
            sa_created_at = 0, sa_last_login = None, sa_login_attempts = 3,
            sa_locked_until = Some 500, sa_is_active = True\<rparr>,
      \<lparr>admins = [ex_admin\<lparr>last_login := Some 1000\<rparr>, ex_operator], refresh_tokens = ex_tokens,
       admin_audit_log = [\<lparr>al_admin_id = Some 1, al_action = ''login_success'',
          al_ip_address = None, al_user_agent = None, al_success = True, al_details = None\<rparr>]\<rparr>)
   \<and> (\<exists>adm. find_admin_by_username (trim (toLowerCase '' Admin ''))
               (ex_db\<lparr>admins := [ex_admin\<lparr>login_attempts := 3, locked_until := Some 500\<rparr>,
                                  ex_operator]\<rparr>) = Some adm
          \<and> find_admin_by_username (trim (toLowerCase '' Admin ''))
               \<lparr>admins = [ex_admin\<lparr>last_login := Some 1000\<rparr>, ex_operator],
                refresh_tokens = ex_tokens,
                admin_audit_log = [\<lparr>al_admin_id = Some 1, al_action = ''login_success'',
                  al_ip_address = None, al_user_agent = None, al_success = True,
                  al_details = None\<rparr>]\<rparr>
              = Some (adm\<lparr>login_attempts := 0, locked_until := None, last_login := Some 1000\<rparr>))"
proof -
  have run: "authenticate ex_compare 1000 '' Admin '' ''admin123'' None None
     (ex_db\<lparr>admins := [ex_admin\<lparr>login_attempts := 3, locked_until := Some 500\<rparr>, ex_operator]\<rparr>)
   = (Inr \<lparr>sa_id = 1, sa_username = ''admin'', sa_role = ''admin'', sa_email = None,
            sa_created_at = 0, sa_last_login = None, sa_login_attempts = 3,
            sa_locked_until = Some 500, sa_is_active = True\<rparr>,
      \<lparr>admins = [ex_admin\<lparr>last_login := Some 1000\<rparr>, ex_operator], refresh_tokens = ex_tokens,
       admin_audit_log = [\<lparr>al_admin_id = Some 1, al_action = ''login_success'',
          al_ip_address = None, al_user_agent = None, al_success = True, al_details = None\<rparr>]\<rparr>)"
    by (simp add: authenticate_def authenticate_checks_def find_admin_by_username_def
        update_admin_def logAudit_def strip_password_def string_defs ex_defs)
  from authenticate_success_resets [OF run] run show ?thesis by blast
qed

section \<open>Account lockout\<close>

text \<open>
  While the lock is in the future every call fails with the lock message, whatever the
  password, and changes nothing but the audit log. A wrong password on an active admin
  without a lock counts one attempt more and locks the account when the count reaches
  the threshold.
\<close>

lemma authenticate_locked:
  assumes "find_admin_by_username (trim (toLowerCase uname)) d = Some adm"
      and "locked_until adm = Some lockUntil" and "now < lockUntil"
  shows "authenticate compare now uname pw ip ua d =
           (Inl (AccountLockedTryAgain (minutesLeft lockUntil now)),
            logAudit (Some (admin_id adm)) ''login_failed'' ip ua False (Some ''Account locked'') d)"
  using assms by (simp add: authenticate_def)

lemma authenticate_wrong_password_unlocked:
  assumes "find_admin_by_username (trim (toLowerCase uname)) d = Some adm"
      and "locked_until adm = None" and "is_active adm" and "\<not> compare pw (password adm)"
  shows "fst (authenticate compare now uname pw ip ua d) =
           Inl (if MAX_LOGIN_ATTEMPTS \<le> login_attempts adm + 1 then TooManyFailedAttempts
                else InvalidCredentials)"
    and "find_admin_by_username (trim (toLowerCase uname))
           (snd (authenticate compare now uname pw ip ua d)) =
         Some (adm\<lparr>login_attempts := login_attempts adm + 1,
                    locked_until := (if MAX_LOGIN_ATTEMPTS \<le> login_attempts adm + 1
                                     then Some (now + LOCKOUT_DURATION) else None)\<rparr>)"
  using assms
  by (simp_all add: authenticate_def authenticate_checks_def Let_def find_username_update_admin)

text \<open>
  From a fresh counter, four wrong passwords leave the account unlocked with four
  attempts, the fifth locks it for \<open>LOCKOUT_DURATION\<close>, and until that instant every
  call fails with the lock message, also with the right password.
\<close>

lemma lockout_after_threshold:
  assumes adm: "find_admin_by_username (trim (toLowerCase uname)) d0 = Some adm"
      and fresh: "login_attempts adm = 0" "locked_until adm = None" "is_active adm"
      and wrong: "\<not> compare p1 (password adm)" "\<not> compare p2 (password adm)"
                 "\<not> compare p3 (password adm)" "\<not> compare p4 (password adm)"
                 "\<not> compare p5 (password adm)"
      and d1: "d1 = snd (authenticate compare t1 uname p1 ip ua d0)"
      and d2: "d2 = snd (authenticate compare t2 uname p2 ip ua d1)"
      and d3: "d3 = snd (authenticate compare t3 uname p3 ip ua d2)"
      and d4: "d4 = snd (authenticate compare t4 uname p4 ip ua d3)"
      and d5: "d5 = snd (authenticate compare t5 uname p5 ip ua d4)"
  shows "fst (authenticate compare t4 uname p4 ip ua d3) = Inl InvalidCredentials"
    and "find_admin_by_username (trim (toLowerCase uname)) d4 =
           Some (adm\<lparr>login_attempts := 4, locked_until := None\<rparr>)"
    and "fst (authenticate compare t5 uname p5 ip ua d4) = Inl TooManyFailedAttempts"
    and "find_admin_by_username (trim (toLowerCase uname)) d5 =
           Some (adm\<lparr>login_attempts := 5, locked_until := Some (t5 + LOCKOUT_DURATION)\<rparr>)"
    and "now < t5 + LOCKOUT_DURATION \<Longrightarrow>
           fst (authenticate compare now uname pw ip ua d5) =
             Inl (AccountLockedTryAgain (minutesLeft (t5 + LOCKOUT_DURATION) now))"
proof -
  let ?u = "trim (toLowerCase uname)"
  have r1: "find_admin_by_username ?u d1 = Some (adm\<lparr>login_attempts := 1, locked_until := None\<rparr>)"
    unfolding d1
    using authenticate_wrong_password_unlocked(2)
            [where compare = compare and pw = p1 and now = t1 and ip = ip and ua = ua, OF adm] fresh wrong
    by (simp add: MAX_LOGIN_ATTEMPTS_def)
  have r2: "find_admin_by_username ?u d2 = Some (adm\<lparr>login_attempts := 2, locked_until := None\<rparr>)"
    unfolding d2
    using authenticate_wrong_password_unlocked(2)
            [where compare = compare and pw = p2 and now = t2 and ip = ip and ua = ua, OF r1] fresh wrong
    by (simp add: MAX_LOGIN_ATTEMPTS_def)
  have r3: "find_admin_by_username ?u d3 = Some (adm\<lparr>login_attempts := 3, locked_until := None\<rparr>)"
    unfolding d3
    using authenticate_wrong_password_unlocked(2)
            [where compare = compare and pw = p3 and now = t3 and ip = ip and ua = ua, OF r2] fresh wrong
    by (simp add: MAX_LOGIN_ATTEMPTS_def)
  show e4: "fst (authenticate compare t4 uname p4 ip ua d3) = Inl InvalidCredentials"
    using authenticate_wrong_password_unlocked(1)
            [where compare = compare and pw = p4 and now = t4 and ip = ip and ua = ua, OF r3] fresh wrong
    by (simp add: MAX_LOGIN_ATTEMPTS_def)
  show r4: "find_admin_by_username ?u d4 = Some (adm\<lparr>login_attempts := 4, locked_until := None\<rparr>)"
    unfolding d4
    using authenticate_wrong_password_unlocked(2)
            [where compare = compare and pw = p4 and now = t4 and ip = ip and ua = ua, OF r3] fresh wrong
    by (simp add: MAX_LOGIN_ATTEMPTS_def)
  show e5: "fst (authenticate compare t5 uname p5 ip ua d4) = Inl TooManyFailedAttempts"
    using authenticate_wrong_password_unlocked(1)
            [where compare = compare and pw = p5 and now = t5 and ip = ip and ua = ua, OF r4] fresh wrong
    by (simp add: MAX_LOGIN_ATTEMPTS_def)
  show r5: "find_admin_by_username ?u d5 =
           Some (adm\<lparr>login_attempts := 5, locked_until := Some (t5 + LOCKOUT_DURATION)\<rparr>)"
    unfolding d5
    using authenticate_wrong_password_unlocked(2)
            [where compare = compare and pw = p5 and now = t5 and ip = ip and ua = ua, OF r4] fresh wrong
    by (simp add: MAX_LOGIN_ATTEMPTS_def)
  show "fst (authenticate compare now uname pw ip ua d5) =
             Inl (AccountLockedTryAgain (minutesLeft (t5 + LOCKOUT_DURATION) now))"
    if "now < t5 + LOCKOUT_DURATION"
    using authenticate_locked
            [where compare = compare and pw = pw and now = now and ip = ip and ua = ua
               and lockUntil = "t5 + LOCKOUT_DURATION", OF r5] that
    by simp
qed

text \<open>
  Claim C1. The claim has the first attempt at or after \<open>lockedUntil\<close> reset the
  counter to 0, clear the lock and go on with the normal credential check. The code
  writes the reset to the database but goes on with the row it read before: a wrong
  password then counts from the old value. For an admin whose lock has ended and whose
  stored count is at least \<open>MAX_LOGIN_ATTEMPTS - 1\<close> (as it is after every lockout), one
  wrong password is answered with the lock message and leaves the account locked again
  with the old count plus one; the same call on the database with the counter reset and
  the lock cleared answers \<open>Invalid credentials\<close> and leaves one attempt and no lock.
\<close>

theorem authenticate_wrong_password_after_lock_expiry:
  assumes "find_admin_by_username (trim (toLowerCase uname)) d = Some adm"
      and "locked_until adm = Some lockUntil" and "lockUntil \<le> now"
      and "is_active adm" and "\<not> compare pw (password adm)"
      and "MAX_LOGIN_ATTEMPTS \<le> login_attempts adm + 1"
  shows "fst (authenticate compare now uname pw ip ua d) = Inl TooManyFailedAttempts
       \<and> find_admin_by_username (trim (toLowerCase uname))
           (snd (authenticate compare now uname pw ip ua d))
          = Some (adm\<lparr>login_attempts := login_attempts adm + 1,
                      locked_until := Some (now + LOCKOUT_DURATION)\<rparr>)
       \<and> fst (authenticate compare now uname pw ip ua
                (update_admin (admin_id adm) (\<lambda>a. a\<lparr>login_attempts := 0, locked_until := None\<rparr>) d))
          = Inl InvalidCredentials
       \<and> find_admin_by_username (trim (toLowerCase uname))
           (snd (authenticate compare now uname pw ip ua
                  (update_admin (admin_id adm) (\<lambda>a. a\<lparr>login_attempts := 0, locked_until := None\<rparr>) d)))
          = Some (adm\<lparr>login_attempts := 1, locked_until := None\<rparr>)"
proof -
  let ?u = "trim (toLowerCase uname)"
  let ?reset = "update_admin (admin_id adm) (\<lambda>a. a\<lparr>login_attempts := 0, locked_until := None\<rparr>) d"
  have actual: "fst (authenticate compare now uname pw ip ua d) = Inl TooManyFailedAttempts"
    using assms by (simp add: authenticate_def authenticate_checks_def Let_def)
  have row: "find_admin_by_username ?u (snd (authenticate compare now uname pw ip ua d))
          = Some (adm\<lparr>login_attempts := login_attempts adm + 1,
                      locked_until := Some (now + LOCKOUT_DURATION)\<rparr>)"
    using assms
    by (simp add: authenticate_def authenticate_checks_def Let_def find_username_update_admin)
  have found: "find_admin_by_username ?u ?reset = Some (adm\<lparr>login_attempts := 0, locked_until := None\<rparr>)"
    using assms by (simp add: find_username_update_admin)
  have small: "\<not> MAX_LOGIN_ATTEMPTS \<le> login_attempts (adm\<lparr>login_attempts := 0, locked_until := None\<rparr>) + 1"
    by (simp add: MAX_LOGIN_ATTEMPTS_def)
  have expected: "fst (authenticate compare now uname pw ip ua ?reset) = Inl InvalidCredentials"
    using authenticate_wrong_password_unlocked(1)
            [where compare = compare and pw = pw and now = now and ip = ip and ua = ua, OF found] assms small
    by simp
  have expected_row: "find_admin_by_username ?u (snd (authenticate compare now uname pw ip ua ?reset))
          = Some (adm\<lparr>login_attempts := 1, locked_until := None\<rparr>)"
    using authenticate_wrong_password_unlocked(2)
            [where compare = compare and pw = pw and now = now and ip = ip and ua = ua, OF found] assms small
    by simp
  from actual row expected expected_row show ?thesis by simp
qed


theorem authenticate_wrong_password_after_lock_expiry_witness:
  "find_admin_by_username (trim (toLowerCase ''admin''))
     (ex_db\<lparr>admins := [ex_admin\<lparr>login_attempts := 5, locked_until := Some 900000\<rparr>, ex_operator]\<rparr>)
     = Some (ex_admin\<lparr>login_attempts := 5, locked_until := Some 900000\<rparr>)
   \<and> (900000::nat) \<le> 900000
   \<and> \<not> ex_compare ''guess1234'' (password ex_admin)
   \<and> fst (authenticate ex_compare 900000 ''admin'' ''guess1234'' None None
        (ex_db\<lparr>admins := [ex_admin\<lparr>login_attempts := 5, locked_until := Some 900000\<rparr>,
                           ex_operator]\<rparr>))
       = Inl TooManyFailedAttempts
   \<and> find_admin_by_username (trim (toLowerCase ''admin''))
        (snd (authenticate ex_compare 900000 ''admin'' ''guess1234'' None None
           (ex_db\<lparr>admins := [ex_admin\<lparr>login_attempts := 5, locked_until := Some 900000\<rparr>,
                              ex_operator]\<rparr>)))
       = Some (ex_admin\<lparr>login_attempts := 6, locked_until := Some 1800000\<rparr>)"
proof -
  let ?adm = "ex_admin\<lparr>login_attempts := 5, locked_until := Some 900000\<rparr>"
  let ?d = "ex_db\<lparr>admins := [?adm, ex_operator]\<rparr>"
  have h1: "find_admin_by_username (trim (toLowerCase ''admin'')) ?d = Some ?adm"
    by (simp add: find_admin_by_username_def string_defs ex_defs)
  have h2: "locked_until ?adm = Some 900000" by simp
  have h3: "(900000::nat) \<le> 900000" by simp
  have h4: "is_active ?adm" by (simp add: ex_defs)
  have h5: "\<not> ex_compare ''guess1234'' (password ?adm)" by (simp add: ex_defs)
  have h6: "MAX_LOGIN_ATTEMPTS \<le> login_attempts ?adm + 1" by (simp add: MAX_LOGIN_ATTEMPTS_def)
  from authenticate_wrong_password_after_lock_expiry
         [where compare = ex_compare and pw = "''guess1234''" and ip = None and ua = None,
          OF h1 h2 h3 h4 h5 h6] h1 h5
  show ?thesis by (simp add: LOCKOUT_DURATION_def)
qed


section \<open>Audit entries\<close>

text \<open>
  A change of password that is refused because the new password is too short, or because
  the admin id is unknown, throws before anything is written: the audit log is as it
  was.
\<close>

theorem changePassword_no_audit_counterexample:
  "fst (changePassword ex_compare ex_hash 1 ''admin123'' ''short'' ex_db) = Inl NewPasswordTooShort
   \<and> admin_audit_log (snd (changePassword ex_compare ex_hash 1 ''admin123'' ''short'' ex_db))
       = admin_audit_log ex_db
   \<and> fst (changePassword ex_compare ex_hash 7 ''admin123'' ''Newpass123'' ex_db) = Inl AdminNotFound
   \<and> admin_audit_log (snd (changePassword ex_compare ex_hash 7 ''admin123'' ''Newpass123'' ex_db))
       = admin_audit_log ex_db"
  by (simp add: changePassword_def find_admin_by_id_def ex_defs)

text \<open>
  Claim C6, as the code has it. Every call of \<open>authenticate\<close> appends exactly one entry
  to the audit log, a success entry exactly when the call succeeds. \<open>changePassword\<close>
  appends exactly one entry (a success entry exactly when it succeeds) when the new
  password has at least 8 characters and the admin exists; otherwise it fails and
  leaves the audit log unchanged.
\<close>

theorem audit_entries_written:
  "(\<exists>e. admin_audit_log (snd (authenticate compare now uname pw ip ua d)) = admin_audit_log d @ [e]
        \<and> al_success e = (\<not> isl (fst (authenticate compare now uname pw ip ua d))))
   \<and> (if 8 \<le> length newPassword \<and> find_admin_by_id adminId d \<noteq> None
       then \<exists>e. admin_audit_log (snd (changePassword compare hash adminId oldPassword newPassword d))
                  = admin_audit_log d @ [e]
              \<and> al_success e =
                  (\<not> isl (fst (changePassword compare hash adminId oldPassword newPassword d)))
       else isl (fst (changePassword compare hash adminId oldPassword newPassword d))
          \<and> admin_audit_log (snd (changePassword compare hash adminId oldPassword newPassword d))
              = admin_audit_log d)"
proof -
  have a: "\<exists>e. admin_audit_log (snd (authenticate compare now uname pw ip ua d)) = admin_audit_log d @ [e]
        \<and> al_success e = (\<not> isl (fst (authenticate compare now uname pw ip ua d)))"
    by (simp add: authenticate_def authenticate_checks_def Let_def split: option.splits)
  have b: "\<exists>e. admin_audit_log (snd (changePassword compare hash adminId oldPassword newPassword d))
                  = admin_audit_log d @ [e]
              \<and> al_success e =
                  (\<not> isl (fst (changePassword compare hash adminId oldPassword newPassword d)))"
    if "8 \<le> length newPassword" "find_admin_by_id adminId d \<noteq> None"
    using that by (auto simp: changePassword_def Let_def split: option.splits)
  have c: "isl (fst (changePassword compare hash adminId oldPassword newPassword d))
          \<and> admin_audit_log (snd (changePassword compare hash adminId oldPassword newPassword d))
              = admin_audit_log d"
    if "\<not> (8 \<le> length newPassword \<and> find_admin_by_id adminId d \<noteq> None)"
    using that by (auto simp: changePassword_def Let_def split: option.splits)
  from a b c show ?thesis by presburger
qed

theorem audit_entries_written_witness:
  "admin_audit_log (snd (authenticate ex_compare 1000 ''nobody'' ''whatever1'' None None ex_db)) =
     [\<lparr>al_admin_id = None, al_action = ''login_failed'', al_ip_address = None,
       al_user_agent = None, al_success = False, al_details = Some ''User not found''\<rparr>]
   \<and> admin_audit_log (snd (changePassword ex_compare ex_hash 1 ''guess1234'' ''Newpass123'' ex_db)) =
     [\<lparr>al_admin_id = Some 1, al_action = ''password_change_failed'', al_ip_address = None,
       al_user_agent = None, al_success = False, al_details = Some ''Invalid old password''\<rparr>]
   \<and> (\<exists>e. admin_audit_log (snd (changePassword ex_compare ex_hash 1 ''admin123'' ''Newpass123'' ex_db))
             = admin_audit_log ex_db @ [e] \<and> al_success e)"
proof -
  note t = audit_entries_written [of ex_compare 1000 "''nobody''" "''whatever1''" None None ex_db
      "''Newpass123''" 1 ex_hash "''admin123''"]
  have pre: "8 \<le> length ''Newpass123'' \<and> find_admin_by_id 1 ex_db \<noteq> None"
    by (simp add: find_admin_by_id_def ex_defs)
  have ok: "\<not> isl (fst (changePassword ex_compare ex_hash 1 ''admin123'' ''Newpass123'' ex_db))"
    by (simp add: changePassword_def find_admin_by_id_def ex_defs)
  from t pre ok have "\<exists>e. admin_audit_log (snd (changePassword ex_compare ex_hash 1 ''admin123'' ''Newpass123'' ex_db))
             = admin_audit_log ex_db @ [e] \<and> al_success e"
    by auto
  moreover have "admin_audit_log (snd (authenticate ex_compare 1000 ''nobody'' ''whatever1'' None None ex_db)) =
     [\<lparr>al_admin_id = None, al_action = ''login_failed'', al_ip_address = None,
       al_user_agent = None, al_success = False, al_details = Some ''User not found''\<rparr>]"
    by (simp add: authenticate_def find_admin_by_username_def string_defs ex_defs)
  moreover have "admin_audit_log (snd (changePassword ex_compare ex_hash 1 ''guess1234'' ''Newpass123'' ex_db)) =
     [\<lparr>al_admin_id = Some 1, al_action = ''password_change_failed'', al_ip_address = None,
       al_user_agent = None, al_success = False, al_details = Some ''Invalid old password''\<rparr>]"
    by (simp add: changePassword_def find_admin_by_id_def ex_defs)
  ultimately show ?thesis by blast
qed

section \<open>Old-password mismatch\<close>

text \<open>
  A wrong old password and a rejected new password are answered differently, by the
  service and by the route: the first answer names the old password.
\<close>

theorem changePassword_reveals_field_counterexample:
  "fst (changePassword ex_compare ex_hash 1 ''guess1234'' ''Newpass123'' ex_db)
     = Inl InvalidOldPassword
   \<and> fst (changePassword ex_compare ex_hash 1 ''admin123'' ''short'' ex_db)
     = Inl NewPasswordTooShort
   \<and> message InvalidOldPassword \<noteq> message NewPasswordTooShort
   \<and> res_error (fst (change_password_route ex_compare ex_hash 1 ''guess1234'' ''Newpass123'' ex_db))
       = Some ''Invalid old password''
   \<and> res_error (fst (change_password_route ex_compare ex_hash 1 ''admin123'' ''short'' ex_db))
       = Some ''Validation failed''
   \<and> fst (change_password_route ex_compare ex_hash 1 ''guess1234'' ''Newpass123'' ex_db)
       \<noteq> fst (change_password_route ex_compare ex_hash 1 ''admin123'' ''short'' ex_db)"
proof -
  have a: "fst (changePassword ex_compare ex_hash 1 ''guess1234'' ''Newpass123'' ex_db)
     = Inl InvalidOldPassword"
    by (simp add: changePassword_def find_admin_by_id_def ex_defs)
  have b: "fst (changePassword ex_compare ex_hash 1 ''admin123'' ''short'' ex_db)
     = Inl NewPasswordTooShort"
    by (simp add: changePassword_def)
  have c: "res_error (fst (change_password_route ex_compare ex_hash 1 ''guess1234'' ''Newpass123'' ex_db))
       = Some ''Invalid old password''"
    by (simp add: change_password_route_def changePassword_def find_admin_by_id_def ex_defs
        has_lower_upper_digit_def first_line_def or_else_def truthy_def json_def)
  have d: "res_error (fst (change_password_route ex_compare ex_hash 1 ''admin123'' ''short'' ex_db))
       = Some ''Validation failed''"
    by (simp add: change_password_route_def has_lower_upper_digit_def first_line_def
        failure_def json_def)
  have e: "fst (change_password_route ex_compare ex_hash 1 ''guess1234'' ''Newpass123'' ex_db)
       \<noteq> fst (change_password_route ex_compare ex_hash 1 ''admin123'' ''short'' ex_db)"
  proof
    assume "fst (change_password_route ex_compare ex_hash 1 ''guess1234'' ''Newpass123'' ex_db)
       = fst (change_password_route ex_compare ex_hash 1 ''admin123'' ''short'' ex_db)"
    then have "res_error (fst (change_password_route ex_compare ex_hash 1 ''guess1234'' ''Newpass123'' ex_db))
       = res_error (fst (change_password_route ex_compare ex_hash 1 ''admin123'' ''short'' ex_db))"
      by (rule arg_cong)
    with c d show False by simp
  qed
  from a b c d e show ?thesis by simp
qed

text \<open>
  Claim C7, as the code has it. When the new password has at least 8 characters, the
  admin exists and the old password does not match the stored hash, \<open>changePassword\<close>
  appends a failure entry \<open>password_change_failed\<close> to the audit log, changes nothing
  else, and fails with the message \<open>Invalid old password\<close>; the route passes that
  message on to the caller with status 400.
\<close>

theorem changePassword_old_password_mismatch:
  assumes "8 \<le> length newPassword"
      and "find_admin_by_id adminId d = Some adm"
      and "\<not> compare oldPassword (password adm)"
  shows "changePassword compare hash adminId oldPassword newPassword d =
           (Inl InvalidOldPassword,
            logAudit (Some adminId) ''password_change_failed'' None None False
              (Some ''Invalid old password'') d)
       \<and> message InvalidOldPassword = ''Invalid old password''
       \<and> (oldPassword \<noteq> [] \<and> has_lower_upper_digit newPassword \<longrightarrow>
            fst (change_password_route compare hash adminId oldPassword newPassword d) =
              (json 400 False)\<lparr>res_error := Some ''Invalid old password''\<rparr>)"
proof -
  have svc: "changePassword compare hash adminId oldPassword newPassword d =
           (Inl InvalidOldPassword,
            logAudit (Some adminId) ''password_change_failed'' None None False
              (Some ''Invalid old password'') d)"
    using assms by (simp add: changePassword_def)
  have route: "fst (change_password_route compare hash adminId oldPassword newPassword d) =
              (json 400 False)\<lparr>res_error := Some ''Invalid old password''\<rparr>"
    if "oldPassword \<noteq> []" "has_lower_upper_digit newPassword"
    using that assms(1) by (simp add: change_password_route_def svc or_else_def truthy_def)
  from svc route show ?thesis by simp
qed

theorem changePassword_old_password_mismatch_witness:
  "changePassword ex_compare ex_hash 1 ''guess1234'' ''Newpass123'' ex_db =
     (Inl InvalidOldPassword,
      ex_db\<lparr>admin_audit_log :=
        [\<lparr>al_admin_id = Some 1, al_action = ''password_change_failed'', al_ip_address = None,
          al_user_agent = None, al_success = False, al_details = Some ''Invalid old password''\<rparr>]\<rparr>)
   \<and> res_error (fst (change_password_route ex_compare ex_hash 1 ''guess1234'' ''Newpass123'' ex_db))
       = Some ''Invalid old password''"
proof -
  have h1: "8 \<le> length ''Newpass123''" by simp
  have h2: "find_admin_by_id 1 ex_db = Some ex_admin"
    by (simp add: find_admin_by_id_def ex_defs)
  have h3: "\<not> ex_compare ''guess1234'' (password ex_admin)"
    by (simp add: ex_defs)
  have h4: "''guess1234'' \<noteq> [] \<and> has_lower_upper_digit ''Newpass123''"
    by (simp add: has_lower_upper_digit_def first_line_def)
  note t = changePassword_old_password_mismatch
             [where compare = ex_compare and hash = ex_hash and oldPassword = "''guess1234''",
              OF h1 h2 h3]
  have log: "logAudit (Some 1) ''password_change_failed'' None None False
              (Some ''Invalid old password'') ex_db =
             ex_db\<lparr>admin_audit_log :=
        [\<lparr>al_admin_id = Some 1, al_action = ''password_change_failed'', al_ip_address = None,
          al_user_agent = None, al_success = False, al_details = Some ''Invalid old password''\<rparr>]\<rparr>"
    by (simp add: logAudit_def ex_db_def)
  from t h4 log show ?thesis by (simp add: json_def)
qed

section \<open>Unknown user and wrong password\<close>




section \<open>Refreshing the access token\<close>

lemma refresh_lookup_None_iff:
  "adminService_verifyRefreshToken sql_gt now h d = None \<longleftrightarrow>
     \<not> (\<exists>r \<in> set (refresh_tokens d). token_hash r = h \<and> \<not> revoked r \<and> sql_gt (expires_at r) now)"
  by (auto simp: adminService_verifyRefreshToken_def find_None_iff)

lemma refresh_route_keeps_db:
  "snd (refresh_route jwt_verify jwt_sign sha sql_gt now cookie body d) = d"
  by (simp add: refresh_route_def Let_def split: option.splits sum.splits)

lemma refresh_route_all_revoked:
  assumes "or_else cookie body = Some tok" and "tok \<noteq> []"
      and "verifyRefreshToken jwt_verify tok = Inr decoded"
      and "\<forall>r \<in> set (refresh_tokens d). token_hash r = sha tok \<longrightarrow> revoked r"
  shows "refresh_route jwt_verify jwt_sign sha sql_gt now cookie body d =
           (failure 403 ''Refresh token expired or revoked'' (Some ''TOKEN_REVOKED''), d)"
proof -
  have "adminService_verifyRefreshToken sql_gt now (sha tok) d = None"
    using assms(4) by (auto simp: refresh_lookup_None_iff)
  with assms(1-3) show ?thesis by (simp add: refresh_route_def)
qed

lemma refresh_route_no_success_when_revoked:
  assumes "or_else cookie body = Some tok"
      and "\<forall>r \<in> set (refresh_tokens d). token_hash r = sha tok \<longrightarrow> revoked r"
  shows "\<not> res_success (fst (refresh_route jwt_verify jwt_sign sha sql_gt now cookie body d))"
proof (cases "tok = []")
  case True
  with assms(1) show ?thesis
    by (simp add: refresh_route_def failure_def json_def)
next
  case False
  show ?thesis
  proof (cases "verifyRefreshToken jwt_verify tok")
    case (Inl err)
    with assms(1) False show ?thesis
      by (simp add: refresh_route_def failure_def json_def)
  next
    case (Inr decoded)
    from refresh_route_all_revoked [where sha = sha, OF assms(1) False Inr assms(2)]
    show ?thesis
      by (simp add: failure_def json_def)
  qed
qed

lemma revoked_after_map:
  assumes "r \<in> set (map (\<lambda>t. if rt_admin_id t = i then t\<lparr>revoked := True\<rparr> else t) ts)"
      and "rt_admin_id r = i"
  shows "revoked r"
proof -
  from assms(1) have "r \<in> (\<lambda>t. if rt_admin_id t = i then t\<lparr>revoked := True\<rparr> else t) ` set ts"
    by (simp only: set_map)
  then obtain t where r: "r = (if rt_admin_id t = i then t\<lparr>revoked := True\<rparr> else t)"
    by (rule imageE)
  show ?thesis
  proof (cases "rt_admin_id t = i")
    case True
    with r show ?thesis by simp
  next
    case False
    with r assms(2) show ?thesis by simp
  qed
qed

lemma revoked_after_map_hash:
  assumes "r \<in> set (map (\<lambda>t. if rt_admin_id t = i then t\<lparr>revoked := True\<rparr> else t) ts)"
      and "token_hash r = h"
      and "\<forall>t \<in> set ts. token_hash t = h \<longrightarrow> rt_admin_id t = i"
  shows "revoked r"
proof -
  from assms(1) have "r \<in> (\<lambda>t. if rt_admin_id t = i then t\<lparr>revoked := True\<rparr> else t) ` set ts"
    by (simp only: set_map)
  then obtain t where t: "t \<in> set ts"
      and r: "r = (if rt_admin_id t = i then t\<lparr>revoked := True\<rparr> else t)"
    by (rule imageE)
  show ?thesis
  proof (cases "rt_admin_id t = i")
    case True
    with r show ?thesis by simp
  next
    case False
    with r have "r = t" by simp
    with assms(2) have "token_hash t = h" by simp
    with assms(3) t have "rt_admin_id t = i" by blast
    with False show ?thesis by simp
  qed
qed

text \<open>
  A successful login stores the hash of the refresh token it issues under the id of the
  admin, the same id it puts in the token: the admin named by a token is the owner of its
  row in the store.
\<close>

lemma login_route_stores_owned_token:
  assumes "3 \<le> length (trim uname)" and "8 \<le> length pw"
      and "authenticate compare now (escape (trim uname)) pw ip ua d = (Inr adm, d1)"
  shows "snd (login_route compare jwt_sign sha now ip ua uname pw d) =
           storeRefreshToken (sa_id adm)
             (sha (jwt_sign \<lparr>jwt_id = sa_id adm, jwt_username = None, jwt_role = None,
                              jwt_type = Some ''refresh''\<rparr> JWT_REFRESH_EXPIRES_IN))
             (now + 604800000) d1"
  using assms by (simp add: login_route_def generateRefreshToken_def Let_def)

text \<open>
  The decisions of the refresh route, for a request that carries a token, in the cookie
  or in the body. The route writes nothing to the database; it succeeds only when the
  token library verifies the token and the token's type claim is \<open>refresh\<close>; and for
  a token that passes this verification the response is

  \<^item> 403 with code \<open>TOKEN_REVOKED\<close> when the store has no row with the hash of the token
    that is not revoked and passes the expiry test of the query;
  \<^item> otherwise 403 with code \<open>ACCOUNT_DISABLED\<close> when the admin the token names does not
    exist or is inactive;
  \<^item> otherwise 200 with a freshly signed access token for that admin, in the body and in
    the \<open>auth_token\<close> cookie, and no new refresh token.
\<close>

lemma refresh_route_decisions:
  assumes "or_else cookie body = Some tok" and "tok \<noteq> []"
  shows "snd (refresh_route jwt_verify jwt_sign sha sql_gt now cookie body d) = d
   \<and> (res_success (fst (refresh_route jwt_verify jwt_sign sha sql_gt now cookie body d)) \<longrightarrow>
        (\<exists>decoded. jwt_verify tok = Some decoded \<and> jwt_type decoded = Some ''refresh''))
   \<and> (jwt_verify tok = Some decoded \<and> jwt_type decoded = Some ''refresh'' \<longrightarrow>
        fst (refresh_route jwt_verify jwt_sign sha sql_gt now cookie body d) =
          (if \<not> (\<exists>r \<in> set (refresh_tokens d).
                    token_hash r = sha tok \<and> \<not> revoked r \<and> sql_gt (expires_at r) now)
           then \<lparr>status = 403, res_success = False, res_error = Some ''Refresh token expired or revoked'',
               res_code = Some ''TOKEN_REVOKED'', res_message = None, res_details = [],
               res_user = None, res_accessToken = None, res_refreshToken = None,
               res_expiresIn = None, res_cookies = [], res_cleared = []\<rparr>
           else case find_admin_by_id (jwt_id decoded) d of
                  None \<Rightarrow> \<lparr>status = 403, res_success = False, res_error = Some ''Account not found or disabled'',
               res_code = Some ''ACCOUNT_DISABLED'', res_message = None, res_details = [],
               res_user = None, res_accessToken = None, res_refreshToken = None,
               res_expiresIn = None, res_cookies = [], res_cleared = []\<rparr>
                | Some a \<Rightarrow>
                    if \<not> is_active a
                    then \<lparr>status = 403, res_success = False, res_error = Some ''Account not found or disabled'',
               res_code = Some ''ACCOUNT_DISABLED'', res_message = None, res_details = [],
               res_user = None, res_accessToken = None, res_refreshToken = None,
               res_expiresIn = None, res_cookies = [], res_cleared = []\<rparr>
                    else \<lparr>status = 200, res_success = True, res_error = None, res_code = None,
               res_message = Some ''Token refreshed successfully'', res_details = [],
               res_user = None,
               res_accessToken =
                 Some (jwt_sign \<lparr>jwt_id = admin_id a, jwt_username = Some (username a),
                                  jwt_role = Some (role a), jwt_type = None\<rparr> ''24h''),
               res_refreshToken = None, res_expiresIn = Some 86400,
               res_cookies =
                 [(''auth_token'',
                   jwt_sign \<lparr>jwt_id = admin_id a, jwt_username = Some (username a),
                             jwt_role = Some (role a), jwt_type = None\<rparr> ''24h'')],
               res_cleared = []\<rparr>))"
proof -
  have keep: "snd (refresh_route jwt_verify jwt_sign sha sql_gt now cookie body d) = d"
    by (rule refresh_route_keeps_db)
  have verified: "\<exists>decoded. jwt_verify tok = Some decoded \<and> jwt_type decoded = Some ''refresh''"
    if "res_success (fst (refresh_route jwt_verify jwt_sign sha sql_gt now cookie body d))"
    using that assms
    by (auto simp: refresh_route_def verifyRefreshToken_def failure_def json_def Let_def
        split: option.splits sum.splits if_splits)
  have outcome: "fst (refresh_route jwt_verify jwt_sign sha sql_gt now cookie body d) =
          (if \<not> (\<exists>r \<in> set (refresh_tokens d).
                    token_hash r = sha tok \<and> \<not> revoked r \<and> sql_gt (expires_at r) now)
           then \<lparr>status = 403, res_success = False, res_error = Some ''Refresh token expired or revoked'',
               res_code = Some ''TOKEN_REVOKED'', res_message = None, res_details = [],
               res_user = None, res_accessToken = None, res_refreshToken = None,
               res_expiresIn = None, res_cookies = [], res_cleared = []\<rparr>
           else case find_admin_by_id (jwt_id decoded) d of
                  None \<Rightarrow> \<lparr>status = 403, res_success = False, res_error = Some ''Account not found or disabled'',
               res_code = Some ''ACCOUNT_DISABLED'', res_message = None, res_details = [],
               res_user = None, res_accessToken = None, res_refreshToken = None,
               res_expiresIn = None, res_cookies = [], res_cleared = []\<rparr>
                | Some a \<Rightarrow>
                    if \<not> is_active a
                    then \<lparr>status = 403, res_success = False, res_error = Some ''Account not found or disabled'',
               res_code = Some ''ACCOUNT_DISABLED'', res_message = None, res_details = [],
               res_user = None, res_accessToken = None, res_refreshToken = None,
               res_expiresIn = None, res_cookies = [], res_cleared = []\<rparr>
                    else \<lparr>status = 200, res_success = True, res_error = None, res_code = None,
               res_message = Some ''Token refreshed successfully'', res_details = [],
               res_user = None,
               res_accessToken =
                 Some (jwt_sign \<lparr>jwt_id = admin_id a, jwt_username = Some (username a),
                                  jwt_role = Some (role a), jwt_type = None\<rparr> ''24h''),
               res_refreshToken = None, res_expiresIn = Some 86400,
               res_cookies =
                 [(''auth_token'',
                   jwt_sign \<lparr>jwt_id = admin_id a, jwt_username = Some (username a),
                             jwt_role = Some (role a), jwt_type = None\<rparr> ''24h'')],
               res_cleared = []\<rparr>)"
    if v: "jwt_verify tok = Some decoded" "jwt_type decoded = Some ''refresh''"
  proof -
    have vr: "verifyRefreshToken jwt_verify tok = Inr decoded"
      using v by (simp add: verifyRefreshToken_def)
    show ?thesis
    proof (cases "adminService_verifyRefreshToken sql_gt now (sha tok) d")
      case None
      then have "\<not> (\<exists>r \<in> set (refresh_tokens d).
                    token_hash r = sha tok \<and> \<not> revoked r \<and> sql_gt (expires_at r) now)"
        by (simp add: refresh_lookup_None_iff)
      with None show ?thesis
        using assms vr by (simp add: refresh_route_def failure_def json_def)
    next
      case (Some storedToken)
      then have ex: "\<exists>r \<in> set (refresh_tokens d).
                    token_hash r = sha tok \<and> \<not> revoked r \<and> sql_gt (expires_at r) now"
        using refresh_lookup_None_iff [of sql_gt now "sha tok" d] by simp
      show ?thesis
        using assms vr Some ex
        by (simp add: refresh_route_def getAdminById_def generateAccessToken_def
              JWT_EXPIRES_IN_def failure_def json_def Let_def split: option.splits)
    qed
  qed
  from keep verified outcome show ?thesis by blast
qed

text \<open>
  The expiry test of the query on the texts: as long as the current instant is on the
  UTC day of the expiry, the two texts agree on the date and differ next in \<open>T\<close> against
  the space, so the stored text is the greater one, whatever the time of day.
\<close>

lemma toISOString_examples:
  "toISOString 0 = ''1970-01-01T00:00:00.000Z''"
  "toISOString 951868800000 = ''2000-03-01T00:00:00.000Z''"
  "toISOString 1709251199007 = ''2024-02-29T23:59:59.007Z''"
  "CURRENT_TIMESTAMP 1709251199007 = ''2024-02-29 23:59:59''"
  by (simp_all add: text_defs)

lemma text_gt_prefix:
  "text_gt (p @ xs) (p @ ys) = text_gt xs ys"
  by (induction p) simp_all

lemma expires_gt_on_the_day_of_expiry:
  assumes "expiresAt div 86400000 = now div 86400000"
  shows "expires_gt_CURRENT_TIMESTAMP expiresAt now"
proof -
  have "text_gt (toISOString expiresAt) (CURRENT_TIMESTAMP now) =
        text_gt (''T'' @ time_text expiresAt @ ''.'' @ pad3 (expiresAt mod 1000) @ ''Z'')
          ('' '' @ time_text now)"
    unfolding toISOString_def CURRENT_TIMESTAMP_def assms by (rule text_gt_prefix)
  also have "\<dots>" by simp
  finally show ?thesis by (simp add: expires_gt_CURRENT_TIMESTAMP_def)
qed

text \<open>
  Claim C4. The claim has the refresh fail with \<open>TokenRevoked\<close> when the store entry is
  expired. The query compares the stored ISO text of the expiry with the text of
  \<open>CURRENT_TIMESTAMP\<close>, so an entry counts as expired only from the UTC day after its
  expiry. For a request with a token that the token library verifies as a refresh
  token, whose entry is not revoked and has expired, but earlier on the current UTC
  day, and whose owner (the admin the token names) is active, the route answers 200
  with a freshly signed access token, where the claim has 403 \<open>TOKEN_REVOKED\<close>. The
  database is left as it was.
\<close>

theorem refresh_route_accepts_entry_expired_today:
  assumes "or_else cookie body = Some tok" and "tok \<noteq> []"
      and "jwt_verify tok = Some decoded" and "jwt_type decoded = Some ''refresh''"
      and "r \<in> set (refresh_tokens d)" and "token_hash r = sha tok" and "\<not> revoked r"
      and "rt_admin_id r = jwt_id decoded"
      and "expires_at r \<le> now" and "expires_at r div 86400000 = now div 86400000"
      and "find_admin_by_id (jwt_id decoded) d = Some a" and "is_active a"
  shows "refresh_route jwt_verify jwt_sign sha expires_gt_CURRENT_TIMESTAMP now cookie body d =
           (\<lparr>status = 200, res_success = True, res_error = None, res_code = None,
               res_message = Some ''Token refreshed successfully'', res_details = [],
               res_user = None,
               res_accessToken =
                 Some (jwt_sign \<lparr>jwt_id = admin_id a, jwt_username = Some (username a),
                                  jwt_role = Some (role a), jwt_type = None\<rparr> ''24h''),
               res_refreshToken = None, res_expiresIn = Some 86400,
               res_cookies =
                 [(''auth_token'',
                   jwt_sign \<lparr>jwt_id = admin_id a, jwt_username = Some (username a),
                             jwt_role = Some (role a), jwt_type = None\<rparr> ''24h'')],
               res_cleared = []\<rparr>, d)"
proof -
  have vr: "verifyRefreshToken jwt_verify tok = Inr decoded"
    using assms(3,4) by (simp add: verifyRefreshToken_def)
  have "expires_gt_CURRENT_TIMESTAMP (expires_at r) now"
    using assms(10) by (rule expires_gt_on_the_day_of_expiry)
  with assms(5-7) have "\<exists>r \<in> set (refresh_tokens d). token_hash r = sha tok \<and> \<not> revoked r
           \<and> expires_gt_CURRENT_TIMESTAMP (expires_at r) now"
    by blast
  then have "adminService_verifyRefreshToken expires_gt_CURRENT_TIMESTAMP now (sha tok) d \<noteq> None"
    by (simp add: refresh_lookup_None_iff)
  then obtain storedToken where
    st: "adminService_verifyRefreshToken expires_gt_CURRENT_TIMESTAMP now (sha tok) d
           = Some storedToken"
    by blast
  show ?thesis
    using assms(1,2,11,12) vr st
    by (simp add: refresh_route_def getAdminById_def generateAccessToken_def JWT_EXPIRES_IN_def
          json_def Let_def)
qed

text \<open>
  The theorem at work: the entry expired on 9 November 2026 at 10:00:00 UTC, the request
  comes three hours later. One day later the same request is answered
  \<open>TOKEN_REVOKED\<close>.
\<close>

theorem refresh_route_accepts_entry_expired_today_witness:
  "toISOString 1794218400000 = ''2026-11-09T10:00:00.000Z''
   \<and> CURRENT_TIMESTAMP 1794229200000 = ''2026-11-09 13:00:00''
   \<and> (1794218400000::nat) \<le> 1794229200000
   \<and> refresh_route ex_jwt_verify ex_jwt_sign ex_sha256 expires_gt_CURRENT_TIMESTAMP 1794229200000
        (Some ''refresh:1:7d'') None
        (ex_db\<lparr>refresh_tokens :=
           [\<lparr>rt_admin_id = 1, token_hash = ''sha256:refresh:1:7d'',
             expires_at = 1794218400000, revoked = False\<rparr>]\<rparr>)
     = (\<lparr>status = 200, res_success = True, res_error = None, res_code = None,
         res_message = Some ''Token refreshed successfully'', res_details = [],
         res_user = None, res_accessToken = Some ''access:1:24h'', res_refreshToken = None,
         res_expiresIn = Some 86400, res_cookies = [(''auth_token'', ''access:1:24h'')],
         res_cleared = []\<rparr>,
        ex_db\<lparr>refresh_tokens :=
           [\<lparr>rt_admin_id = 1, token_hash = ''sha256:refresh:1:7d'',
             expires_at = 1794218400000, revoked = False\<rparr>]\<rparr>)
   \<and> fst (refresh_route ex_jwt_verify ex_jwt_sign ex_sha256 expires_gt_CURRENT_TIMESTAMP
            (1794229200000 + 86400000) (Some ''refresh:1:7d'') None
            (ex_db\<lparr>refresh_tokens :=
               [\<lparr>rt_admin_id = 1, token_hash = ''sha256:refresh:1:7d'',
                 expires_at = 1794218400000, revoked = False\<rparr>]\<rparr>))
     = \<lparr>status = 403, res_success = False, res_error = Some ''Refresh token expired or revoked'',
               res_code = Some ''TOKEN_REVOKED'', res_message = None, res_details = [],
               res_user = None, res_accessToken = None, res_refreshToken = None,
               res_expiresIn = None, res_cookies = [], res_cleared = []\<rparr>"
proof -
  let ?r = "\<lparr>rt_admin_id = 1, token_hash = ''sha256:refresh:1:7d'',
             expires_at = 1794218400000, revoked = False\<rparr>"
  let ?d = "ex_db\<lparr>refresh_tokens := [?r]\<rparr>"
  let ?p = "\<lparr>jwt_id = 1, jwt_username = None, jwt_role = None, jwt_type = Some ''refresh''\<rparr>"
  have iso: "toISOString 1794218400000 = ''2026-11-09T10:00:00.000Z''"
   and cur: "CURRENT_TIMESTAMP 1794229200000 = ''2026-11-09 13:00:00''"
    by (simp_all add: text_defs)
  have h1: "or_else (Some ''refresh:1:7d'') None = Some ''refresh:1:7d''"
   and h2: "''refresh:1:7d'' \<noteq> []"
    by (simp_all add: or_else_def truthy_def)
  have h3: "ex_jwt_verify ''refresh:1:7d'' = Some ?p" and h4: "jwt_type ?p = Some ''refresh''"
    by (simp_all add: ex_jwt_verify_def)
  have h5: "?r \<in> set (refresh_tokens ?d)" and h6: "token_hash ?r = ex_sha256 ''refresh:1:7d''"
   and h7: "\<not> revoked ?r" and h8: "rt_admin_id ?r = jwt_id ?p"
    by (simp_all add: ex_sha256_def)
  have h9: "expires_at ?r \<le> 1794229200000"
   and h10: "expires_at ?r div 86400000 = 1794229200000 div 86400000"
    by simp_all
  have h11: "find_admin_by_id (jwt_id ?p) ?d = Some ex_admin" and h12: "is_active ex_admin"
    by (simp_all add: find_admin_by_id_def ex_db_def ex_admin_def)
  note t = refresh_route_accepts_entry_expired_today
      [where jwt_verify = ex_jwt_verify and jwt_sign = ex_jwt_sign and sha = ex_sha256
         and cookie = "Some ''refresh:1:7d''" and body = None and tok = "''refresh:1:7d''"
         and decoded = ?p and r = ?r and d = ?d and now = 1794229200000 and a = ex_admin,
       OF h1 h2 h3 h4 h5 h6 h7 h8 h9 h10 h11 h12]
  have today: "refresh_route ex_jwt_verify ex_jwt_sign ex_sha256 expires_gt_CURRENT_TIMESTAMP
        1794229200000 (Some ''refresh:1:7d'') None ?d
     = (\<lparr>status = 200, res_success = True, res_error = None, res_code = None,
         res_message = Some ''Token refreshed successfully'', res_details = [],
         res_user = None, res_accessToken = Some ''access:1:24h'', res_refreshToken = None,
         res_expiresIn = Some 86400, res_cookies = [(''auth_token'', ''access:1:24h'')],
         res_cleared = []\<rparr>, ?d)"
    using t by (simp add: ex_jwt_sign_def ex_admin_def)
  have later: "\<not> expires_gt_CURRENT_TIMESTAMP 1794218400000 (1794229200000 + 86400000)"
    by (simp add: text_defs)
  have tomorrow: "fst (refresh_route ex_jwt_verify ex_jwt_sign ex_sha256
            expires_gt_CURRENT_TIMESTAMP (1794229200000 + 86400000) (Some ''refresh:1:7d'') None ?d)
     = \<lparr>status = 403, res_success = False, res_error = Some ''Refresh token expired or revoked'',
               res_code = Some ''TOKEN_REVOKED'', res_message = None, res_details = [],
               res_user = None, res_accessToken = None, res_refreshToken = None,
               res_expiresIn = None, res_cookies = [], res_cleared = []\<rparr>"
    using h1 h3 later
    by (simp add: refresh_route_def verifyRefreshToken_def adminService_verifyRefreshToken_def
          failure_def json_def ex_sha256_def)
  from iso cur today tomorrow show ?thesis by simp
qed

section \<open>Change of password\<close>

lemma changePassword_success:
  assumes "changePassword compare hash adminId oldPassword newPassword d = (Inr ok, d')"
  shows "8 \<le> length newPassword"
    and "\<exists>adm. find_admin_by_id adminId d = Some adm \<and> compare oldPassword (password adm)"
    and "d' = logAudit (Some adminId) ''password_changed'' None None True None
           (revokeAllRefreshTokens adminId
              (update_admin adminId (\<lambda>a. a\<lparr>password := hash newPassword\<rparr>) d))"
proof -
  show len: "8 \<le> length newPassword"
  proof (rule ccontr)
    assume "\<not> 8 \<le> length newPassword"
    then have "changePassword compare hash adminId oldPassword newPassword d
                 = (Inl NewPasswordTooShort, d)"
      by (simp add: changePassword_def)
    with assms show False by simp
  qed
  obtain adm where adm: "find_admin_by_id adminId d = Some adm"
  proof (cases "find_admin_by_id adminId d")
    case None
    with len have "changePassword compare hash adminId oldPassword newPassword d
                 = (Inl AdminNotFound, d)"
      by (simp add: changePassword_def)
    with assms show ?thesis by simp
  next
    case (Some a)
    then show ?thesis by (rule that)
  qed
  have old: "compare oldPassword (password adm)"
  proof (rule ccontr)
    assume "\<not> compare oldPassword (password adm)"
    with len adm have "fst (changePassword compare hash adminId oldPassword newPassword d)
                 = Inl InvalidOldPassword"
      by (simp add: changePassword_def)
    with assms show False by simp
  qed
  from adm old show "\<exists>adm. find_admin_by_id adminId d = Some adm \<and> compare oldPassword (password adm)"
    by simp
  from len adm old have "changePassword compare hash adminId oldPassword newPassword d =
     (Inr True, logAudit (Some adminId) ''password_changed'' None None True None
           (revokeAllRefreshTokens adminId
              (update_admin adminId (\<lambda>a. a\<lparr>password := hash newPassword\<rparr>) d)))"
    by (simp add: changePassword_def Let_def)
  with assms show "d' = logAudit (Some adminId) ''password_changed'' None None True None
           (revokeAllRefreshTokens adminId
              (update_admin adminId (\<lambda>a. a\<lparr>password := hash newPassword\<rparr>) d))"
    by simp
qed

text \<open>
  Claim C2. When \<open>changePassword\<close> succeeds, the old password matched the stored hash and
  the new password has at least 8 characters; every row of that admin holds the hash of
  the new password; every refresh token of that admin is revoked and no other token row
  is changed. A refresh request made afterwards with a token whose rows in the store all
  belonged to that admin never succeeds; when the token passes verification, so that
  the request reaches the store, it is answered 403 with code \<open>TOKEN_REVOKED\<close>.
\<close>

theorem changePassword_revokes_refresh_tokens:
  assumes "changePassword compare hash adminId oldPassword newPassword d = (Inr ok, d')"
  shows "(\<exists>adm. find_admin_by_id adminId d = Some adm \<and> compare oldPassword (password adm))
       \<and> 8 \<le> length newPassword
       \<and> admins d' = map (\<lambda>a. if admin_id a = adminId then a\<lparr>password := hash newPassword\<rparr> else a)
                        (admins d)
       \<and> refresh_tokens d' = map (\<lambda>r. if rt_admin_id r = adminId then r\<lparr>revoked := True\<rparr> else r)
                                (refresh_tokens d)
       \<and> (\<forall>r \<in> set (refresh_tokens d'). rt_admin_id r = adminId \<longrightarrow> revoked r)
       \<and> (or_else cookie body = Some tok
            \<and> (\<forall>r \<in> set (refresh_tokens d). token_hash r = sha tok \<longrightarrow> rt_admin_id r = adminId)
          \<longrightarrow> \<not> res_success (fst (refresh_route jwt_verify jwt_sign sha sql_gt now cookie body d')))
       \<and> (or_else cookie body = Some tok \<and> tok \<noteq> []
            \<and> verifyRefreshToken jwt_verify tok = Inr decoded
            \<and> (\<forall>r \<in> set (refresh_tokens d). token_hash r = sha tok \<longrightarrow> rt_admin_id r = adminId)
          \<longrightarrow> refresh_route jwt_verify jwt_sign sha sql_gt now cookie body d' =
                (failure 403 ''Refresh token expired or revoked'' (Some ''TOKEN_REVOKED''), d'))"
proof -
  note s = changePassword_success [OF assms]
  have adms: "admins d' = map (\<lambda>a. if admin_id a = adminId then a\<lparr>password := hash newPassword\<rparr> else a)
                        (admins d)"
    by (simp add: s(3))
  have toks: "refresh_tokens d' = map (\<lambda>r. if rt_admin_id r = adminId then r\<lparr>revoked := True\<rparr> else r)
                                (refresh_tokens d)"
    by (simp add: s(3))
  have rev: "\<forall>r \<in> set (refresh_tokens d'). rt_admin_id r = adminId \<longrightarrow> revoked r"
  proof (intro ballI impI)
    fix r assume "r \<in> set (refresh_tokens d')" and "rt_admin_id r = adminId"
    then show "revoked r"
      unfolding toks by (rule revoked_after_map)
  qed
  have gone: "\<forall>r \<in> set (refresh_tokens d'). token_hash r = sha tok \<longrightarrow> revoked r"
    if own: "\<forall>r \<in> set (refresh_tokens d). token_hash r = sha tok \<longrightarrow> rt_admin_id r = adminId"
  proof (intro ballI impI)
    fix r assume "r \<in> set (refresh_tokens d')" and "token_hash r = sha tok"
    then show "revoked r"
      unfolding toks using own by (rule revoked_after_map_hash)
  qed
  show ?thesis
  proof (intro conjI impI)
    assume c: "or_else cookie body = Some tok
            \<and> (\<forall>r \<in> set (refresh_tokens d). token_hash r = sha tok \<longrightarrow> rt_admin_id r = adminId)"
    show "\<not> res_success (fst (refresh_route jwt_verify jwt_sign sha sql_gt now cookie body d'))"
      by (rule refresh_route_no_success_when_revoked
            [where sha = sha, OF c [THEN conjunct1] gone [OF c [THEN conjunct2]]])
  next
    assume c: "or_else cookie body = Some tok \<and> tok \<noteq> []
            \<and> verifyRefreshToken jwt_verify tok = Inr decoded
            \<and> (\<forall>r \<in> set (refresh_tokens d). token_hash r = sha tok \<longrightarrow> rt_admin_id r = adminId)"
    show "refresh_route jwt_verify jwt_sign sha sql_gt now cookie body d' =
                (failure 403 ''Refresh token expired or revoked'' (Some ''TOKEN_REVOKED''), d')"
      by (rule refresh_route_all_revoked
            [where sha = sha, OF c [THEN conjunct1] c [THEN conjunct2, THEN conjunct1]
               c [THEN conjunct2, THEN conjunct2, THEN conjunct1]
               gone [OF c [THEN conjunct2, THEN conjunct2, THEN conjunct2]]])
  qed (rule s(1) s(2) adms toks rev)+
qed

theorem changePassword_revokes_refresh_tokens_witness:
  "changePassword ex_compare ex_hash 1 ''admin123'' ''Newpass123'' ex_db =
     (Inr True,
      \<lparr>admins = [ex_admin\<lparr>password := ''hash:Newpass123''\<rparr>, ex_operator],
       refresh_tokens = [(ex_tokens ! 0)\<lparr>revoked := True\<rparr>, ex_tokens ! 1],
       admin_audit_log = [\<lparr>al_admin_id = Some 1, al_action = ''password_changed'',
         al_ip_address = None, al_user_agent = None, al_success = True, al_details = None\<rparr>]\<rparr>)
   \<and> status (fst (refresh_route ex_jwt_verify ex_jwt_sign ex_sha256 expires_gt_CURRENT_TIMESTAMP 1000
         (Some ''refresh:1:7d'') None ex_db)) = 200
   \<and> fst (refresh_route ex_jwt_verify ex_jwt_sign ex_sha256 expires_gt_CURRENT_TIMESTAMP 1000
         (Some ''refresh:1:7d'') None
         (snd (changePassword ex_compare ex_hash 1 ''admin123'' ''Newpass123'' ex_db)))
       = failure 403 ''Refresh token expired or revoked'' (Some ''TOKEN_REVOKED'')"
proof -
  let ?d' = "\<lparr>admins = [ex_admin\<lparr>password := ''hash:Newpass123''\<rparr>, ex_operator],
       refresh_tokens = [(ex_tokens ! 0)\<lparr>revoked := True\<rparr>, ex_tokens ! 1],
       admin_audit_log = [\<lparr>al_admin_id = Some 1, al_action = ''password_changed'',
         al_ip_address = None, al_user_agent = None, al_success = True, al_details = None\<rparr>]\<rparr>"
  let ?p = "\<lparr>jwt_id = 1, jwt_username = None, jwt_role = None, jwt_type = Some ''refresh''\<rparr>"
  have run: "changePassword ex_compare ex_hash 1 ''admin123'' ''Newpass123'' ex_db = (Inr True, ?d')"
    by (simp add: changePassword_def find_admin_by_id_def update_admin_def
          revokeAllRefreshTokens_def logAudit_def ex_defs)
  have pre: "or_else (Some ''refresh:1:7d'') None = Some ''refresh:1:7d'' \<and> ''refresh:1:7d'' \<noteq> []
            \<and> verifyRefreshToken ex_jwt_verify ''refresh:1:7d'' = Inr ?p
            \<and> (\<forall>r \<in> set (refresh_tokens ex_db).
                  token_hash r = ex_sha256 ''refresh:1:7d'' \<longrightarrow> rt_admin_id r = 1)"
    by (simp add: or_else_def truthy_def verifyRefreshToken_def ex_defs)
  note t = changePassword_revokes_refresh_tokens
     [where jwt_verify = ex_jwt_verify and jwt_sign = ex_jwt_sign and sha = ex_sha256
        and sql_gt = expires_gt_CURRENT_TIMESTAMP and now = 1000 and cookie = "Some ''refresh:1:7d''"
        and body = None and tok = "''refresh:1:7d''" and decoded = ?p, OF run]
  have after: "refresh_route ex_jwt_verify ex_jwt_sign ex_sha256 expires_gt_CURRENT_TIMESTAMP 1000
         (Some ''refresh:1:7d'') None ?d'
       = (failure 403 ''Refresh token expired or revoked'' (Some ''TOKEN_REVOKED''), ?d')"
    using t pre by blast
  have unexpired: "expires_gt_CURRENT_TIMESTAMP 604800000 1000"
    by (simp add: text_defs)
  have before: "status (fst (refresh_route ex_jwt_verify ex_jwt_sign ex_sha256 expires_gt_CURRENT_TIMESTAMP 1000
         (Some ''refresh:1:7d'') None ex_db)) = 200"
    using unexpired
    by (simp add: refresh_route_def or_else_def truthy_def verifyRefreshToken_def
          adminService_verifyRefreshToken_def getAdminById_def find_admin_by_id_def json_def
          Let_def ex_defs)
  from run after before show ?thesis by simp
qed

section \<open>Deactivation and activation\<close>

text \<open>
  Claim C10. \<open>deactivateAdmin\<close> sets \<open>is_active\<close> to false on the rows of that admin and
  revokes every refresh token of that admin. A refresh request with a token whose rows
  all belong to that admin then never succeeds, and when the token passes verification
  it is answered 403 with code \<open>TOKEN_REVOKED\<close>: it is stopped at the token lookup,
  before the activity check.
  \<open>activateAdmin\<close> sets \<open>is_active\<close> to true and leaves the token rows as they are, so
  the same request is still answered \<open>TOKEN_REVOKED\<close> after the admin is activated
  again.
\<close>

theorem deactivateAdmin_revokes_refresh_tokens:
  "admins (deactivateAdmin i d) =
     map (\<lambda>a. if admin_id a = i then a\<lparr>is_active := False\<rparr> else a) (admins d)
   \<and> refresh_tokens (deactivateAdmin i d) =
     map (\<lambda>r. if rt_admin_id r = i then r\<lparr>revoked := True\<rparr> else r) (refresh_tokens d)
   \<and> (\<forall>r \<in> set (refresh_tokens (deactivateAdmin i d)). rt_admin_id r = i \<longrightarrow> revoked r)
   \<and> (or_else cookie body = Some tok
        \<and> (\<forall>r \<in> set (refresh_tokens d). token_hash r = sha tok \<longrightarrow> rt_admin_id r = i)
      \<longrightarrow> \<not> res_success (fst (refresh_route jwt_verify jwt_sign sha sql_gt now cookie body
                                 (deactivateAdmin i d))))
   \<and> (or_else cookie body = Some tok \<and> tok \<noteq> []
        \<and> verifyRefreshToken jwt_verify tok = Inr decoded
        \<and> (\<forall>r \<in> set (refresh_tokens d). token_hash r = sha tok \<longrightarrow> rt_admin_id r = i)
      \<longrightarrow> refresh_route jwt_verify jwt_sign sha sql_gt now cookie body (deactivateAdmin i d) =
            (failure 403 ''Refresh token expired or revoked'' (Some ''TOKEN_REVOKED''),
             deactivateAdmin i d)
        \<and> refresh_route jwt_verify jwt_sign sha sql_gt now cookie body
            (activateAdmin i (deactivateAdmin i d)) =
            (failure 403 ''Refresh token expired or revoked'' (Some ''TOKEN_REVOKED''),
             activateAdmin i (deactivateAdmin i d)))
   \<and> admins (activateAdmin i d) =
     map (\<lambda>a. if admin_id a = i then a\<lparr>is_active := True\<rparr> else a) (admins d)
   \<and> refresh_tokens (activateAdmin i d) = refresh_tokens d"
proof -
  have adms: "admins (deactivateAdmin i d) =
     map (\<lambda>a. if admin_id a = i then a\<lparr>is_active := False\<rparr> else a) (admins d)"
    by (simp add: deactivateAdmin_def)
  have toks: "refresh_tokens (deactivateAdmin i d) =
     map (\<lambda>r. if rt_admin_id r = i then r\<lparr>revoked := True\<rparr> else r) (refresh_tokens d)"
    by (simp add: deactivateAdmin_def)
  have rev: "\<forall>r \<in> set (refresh_tokens (deactivateAdmin i d)). rt_admin_id r = i \<longrightarrow> revoked r"
  proof (intro ballI impI)
    fix r assume "r \<in> set (refresh_tokens (deactivateAdmin i d))" and "rt_admin_id r = i"
    then show "revoked r"
      unfolding toks by (rule revoked_after_map)
  qed
  have act: "admins (activateAdmin i d) =
     map (\<lambda>a. if admin_id a = i then a\<lparr>is_active := True\<rparr> else a) (admins d)"
    by (simp add: activateAdmin_def)
  have keep: "refresh_tokens (activateAdmin i e) = refresh_tokens e" for e
    by (simp add: activateAdmin_def)
  have r1: "\<forall>r \<in> set (refresh_tokens (deactivateAdmin i d)). token_hash r = sha tok \<longrightarrow> revoked r"
    if own: "\<forall>r \<in> set (refresh_tokens d). token_hash r = sha tok \<longrightarrow> rt_admin_id r = i"
  proof (intro ballI impI)
    fix r assume "r \<in> set (refresh_tokens (deactivateAdmin i d))" and "token_hash r = sha tok"
    then show "revoked r"
      unfolding toks using own by (rule revoked_after_map_hash)
  qed
  have r2: "\<forall>r \<in> set (refresh_tokens (activateAdmin i (deactivateAdmin i d))).
                     token_hash r = sha tok \<longrightarrow> revoked r"
    if own: "\<forall>r \<in> set (refresh_tokens d). token_hash r = sha tok \<longrightarrow> rt_admin_id r = i"
    unfolding keep by (rule r1 [OF own])
  show ?thesis
  proof (intro conjI impI)
    assume c: "or_else cookie body = Some tok
        \<and> (\<forall>r \<in> set (refresh_tokens d). token_hash r = sha tok \<longrightarrow> rt_admin_id r = i)"
    show "\<not> res_success (fst (refresh_route jwt_verify jwt_sign sha sql_gt now cookie body
                                 (deactivateAdmin i d)))"
      by (rule refresh_route_no_success_when_revoked
            [where sha = sha, OF c [THEN conjunct1] r1 [OF c [THEN conjunct2]]])
  next
    assume c: "or_else cookie body = Some tok \<and> tok \<noteq> []
        \<and> verifyRefreshToken jwt_verify tok = Inr decoded
        \<and> (\<forall>r \<in> set (refresh_tokens d). token_hash r = sha tok \<longrightarrow> rt_admin_id r = i)"
    note own = c [THEN conjunct2, THEN conjunct2, THEN conjunct2]
    show "refresh_route jwt_verify jwt_sign sha sql_gt now cookie body (deactivateAdmin i d) =
            (failure 403 ''Refresh token expired or revoked'' (Some ''TOKEN_REVOKED''),
             deactivateAdmin i d)"
      by (rule refresh_route_all_revoked
            [where sha = sha, OF c [THEN conjunct1] c [THEN conjunct2, THEN conjunct1]
               c [THEN conjunct2, THEN conjunct2, THEN conjunct1] r1 [OF own]])
    show "refresh_route jwt_verify jwt_sign sha sql_gt now cookie body
            (activateAdmin i (deactivateAdmin i d)) =
            (failure 403 ''Refresh token expired or revoked'' (Some ''TOKEN_REVOKED''),
             activateAdmin i (deactivateAdmin i d))"
      by (rule refresh_route_all_revoked
            [where sha = sha, OF c [THEN conjunct1] c [THEN conjunct2, THEN conjunct1]
               c [THEN conjunct2, THEN conjunct2, THEN conjunct1] r2 [OF own]])
  qed (rule adms toks rev act keep)+
qed

theorem deactivateAdmin_revokes_refresh_tokens_witness:
  "status (fst (refresh_route ex_jwt_verify ex_jwt_sign ex_sha256 expires_gt_CURRENT_TIMESTAMP 1000
         (Some ''refresh:1:7d'') None ex_db)) = 200
   \<and> deactivateAdmin 1 ex_db =
       \<lparr>admins = [ex_admin\<lparr>is_active := False\<rparr>, ex_operator],
        refresh_tokens = [(ex_tokens ! 0)\<lparr>revoked := True\<rparr>, ex_tokens ! 1],
        admin_audit_log = []\<rparr>
   \<and> fst (refresh_route ex_jwt_verify ex_jwt_sign ex_sha256 expires_gt_CURRENT_TIMESTAMP 1000
         (Some ''refresh:1:7d'') None (deactivateAdmin 1 ex_db))
       = failure 403 ''Refresh token expired or revoked'' (Some ''TOKEN_REVOKED'')
   \<and> fst (refresh_route ex_jwt_verify ex_jwt_sign ex_sha256 expires_gt_CURRENT_TIMESTAMP 1000
         (Some ''refresh:1:7d'') None (activateAdmin 1 (deactivateAdmin 1 ex_db)))
       = failure 403 ''Refresh token expired or revoked'' (Some ''TOKEN_REVOKED'')
   \<and> admins (activateAdmin 1 (deactivateAdmin 1 ex_db)) = [ex_admin, ex_operator]"
proof -
  let ?p = "\<lparr>jwt_id = 1, jwt_username = None, jwt_role = None, jwt_type = Some ''refresh''\<rparr>"
  have pre: "or_else (Some ''refresh:1:7d'') None = Some ''refresh:1:7d'' \<and> ''refresh:1:7d'' \<noteq> []
            \<and> verifyRefreshToken ex_jwt_verify ''refresh:1:7d'' = Inr ?p
            \<and> (\<forall>r \<in> set (refresh_tokens ex_db).
                  token_hash r = ex_sha256 ''refresh:1:7d'' \<longrightarrow> rt_admin_id r = 1)"
    by (simp add: or_else_def truthy_def verifyRefreshToken_def ex_defs)
  note t = deactivateAdmin_revokes_refresh_tokens
     [where jwt_verify = ex_jwt_verify and jwt_sign = ex_jwt_sign and sha = ex_sha256
        and sql_gt = expires_gt_CURRENT_TIMESTAMP and now = 1000 and cookie = "Some ''refresh:1:7d''"
        and body = None and tok = "''refresh:1:7d''" and decoded = ?p and i = 1 and d = ex_db]
  from t pre have after:
    "refresh_route ex_jwt_verify ex_jwt_sign ex_sha256 expires_gt_CURRENT_TIMESTAMP 1000 (Some ''refresh:1:7d'') None
       (deactivateAdmin 1 ex_db) =
            (failure 403 ''Refresh token expired or revoked'' (Some ''TOKEN_REVOKED''),
             deactivateAdmin 1 ex_db)
        \<and> refresh_route ex_jwt_verify ex_jwt_sign ex_sha256 expires_gt_CURRENT_TIMESTAMP 1000 (Some ''refresh:1:7d'') None
            (activateAdmin 1 (deactivateAdmin 1 ex_db)) =
            (failure 403 ''Refresh token expired or revoked'' (Some ''TOKEN_REVOKED''),
             activateAdmin 1 (deactivateAdmin 1 ex_db))"
    by blast
  have unexpired: "expires_gt_CURRENT_TIMESTAMP 604800000 1000"
    by (simp add: text_defs)
  have before: "status (fst (refresh_route ex_jwt_verify ex_jwt_sign ex_sha256 expires_gt_CURRENT_TIMESTAMP 1000
         (Some ''refresh:1:7d'') None ex_db)) = 200"
    using unexpired
    by (simp add: refresh_route_def or_else_def truthy_def verifyRefreshToken_def
          adminService_verifyRefreshToken_def getAdminById_def find_admin_by_id_def json_def
          Let_def ex_defs)
  have deactivated: "deactivateAdmin 1 ex_db =
       \<lparr>admins = [ex_admin\<lparr>is_active := False\<rparr>, ex_operator],
        refresh_tokens = [(ex_tokens ! 0)\<lparr>revoked := True\<rparr>, ex_tokens ! 1],
        admin_audit_log = []\<rparr>"
    by (simp add: deactivateAdmin_def update_admin_def revokeAllRefreshTokens_def ex_defs)
  have reactivated: "admins (activateAdmin 1 (deactivateAdmin 1 ex_db)) = [ex_admin, ex_operator]"
    by (simp add: activateAdmin_def deactivateAdmin_def ex_defs)
  from before deactivated after reactivated show ?thesis by simp
qed

end
